theory Spec2Isabelle
  imports Main "HOL-Library.Word" "HOL-Library.Sublist"
begin

section \<open>Basic types\<close>

text \<open>
  A Go \<^verbatim>\<open>error\<close> value is modelled by its message; \<^verbatim>\<open>nil\<close> is \<open>None\<close> of
  \<open>error option\<close>.
\<close>

type_synonym error = string

text \<open>
  A call returns, or never returns because it waits for a lock that is not released, or
  panics.
\<close>

datatype 'a outcome = Returns 'a | Blocks | Panics

section \<open>The dispatch core: Logger (src/handler/config.go, package slog)\<close>

text \<open>
  A registered handler is an interface value. Its \<^verbatim>\<open>Flush\<close> and \<^verbatim>\<open>Close\<close> methods
  act on a world \<open>'w\<close> (whatever the handlers write to) and return an error or nil.
\<close>

record 'w Handler =
  Flush_of :: "'w \<Rightarrow> error option \<times> 'w"
  Close_of :: "'w \<Rightarrow> error option \<times> 'w"

text \<open>
  \<^verbatim>\<open>sync.Mutex\<close>: \<open>True\<close> when held. \<^verbatim>\<open>Lock\<close> on a held mutex does not return.
\<close>

type_synonym Mutex = bool

text \<open>
  The fields of \<^verbatim>\<open>Logger\<close> that the modelled methods read or write. The record pool
  holds the addresses of the records that were released and not acquired again.
\<close>

type_synonym addr = nat

record 'w Logger =
  name :: string
  mu :: Mutex
  err :: "error option"
  handlers :: "'w Handler list"
  recordPool :: "addr list"
  CallerSkip :: int

text \<open>
  What a method of the logger runs in: the logger itself, the world of its handlers and
  the lines printed by \<^verbatim>\<open>printlnStderr\<close>.
\<close>

record 'w env =
  logger :: "'w Logger"
  world :: 'w
  stderr :: "string list"

text \<open>
  Modelled from the spec: \<^verbatim>\<open>printlnStderr\<close> is not in the sources. The spec has a failing
  handler reported on the error stream of the process; the line is the message and the
  error, separated by a blank.
\<close>

definition printlnStderr :: "string \<Rightarrow> error \<Rightarrow> 'w env \<Rightarrow> 'w env" where
  "printlnStderr msg e s = s\<lparr>stderr := stderr s @ [msg @ '' '' @ e]\<rparr>"

definition set_err :: "error \<Rightarrow> 'w env \<Rightarrow> 'w env" where
  "set_err e s = s\<lparr>logger := (logger s)\<lparr>err := Some e\<rparr>\<rparr>"

text \<open>
  \<^verbatim>\<open>VisitAll\<close>: the loop over \<^verbatim>\<open>l.handlers\<close>; it returns at the first callback that returns
  an error.
\<close>

fun visit :: "('w Handler \<Rightarrow> 'w env \<Rightarrow> error option \<times> 'w env) \<Rightarrow> 'w Handler list
    \<Rightarrow> 'w env \<Rightarrow> error option \<times> 'w env" where
  "visit fn [] s = (None, s)"
| "visit fn (h # hs) s =
     (case fn h s of
        (Some e, s') \<Rightarrow> (Some e, s')
      | (None, s') \<Rightarrow> visit fn hs s')"

definition VisitAll :: "('w Handler \<Rightarrow> 'w env \<Rightarrow> error option \<times> 'w env) \<Rightarrow> 'w env
    \<Rightarrow> error option \<times> 'w env" where
  "VisitAll fn s = visit fn (handlers (logger s)) s"

text \<open>The callback of \<^verbatim>\<open>flushAll\<close>.\<close>

definition flush_fn :: "'w Handler \<Rightarrow> 'w env \<Rightarrow> error option \<times> 'w env" where
  "flush_fn handler s =
     (case Flush_of handler (world s) of
        (Some e, w') \<Rightarrow>
          (None, printlnStderr ''slog: call handler.Flush() error:'' e (set_err e (s\<lparr>world := w'\<rparr>)))
      | (None, w') \<Rightarrow> (None, s\<lparr>world := w'\<rparr>))"

definition flushAll :: "'w env \<Rightarrow> 'w env" where
  "flushAll s = snd (VisitAll flush_fn s)"

text \<open>
  \<^verbatim>\<open>lockAndFlushAll\<close> takes \<^verbatim>\<open>l.mu\<close>, runs \<^verbatim>\<open>flushAll\<close>, releases the mutex and returns
  \<^verbatim>\<open>l.err\<close>. The call does not return when the mutex is held.
\<close>

definition lockAndFlushAll :: "'w env \<Rightarrow> (error option \<times> 'w env) outcome" where
  "lockAndFlushAll s =
     (if mu (logger s) then Blocks
      else
        let s1 = s\<lparr>logger := (logger s)\<lparr>mu := True\<rparr>\<rparr>;
            s2 = flushAll s1;
            s3 = s2\<lparr>logger := (logger s2)\<lparr>mu := False\<rparr>\<rparr>
        in Returns (err (logger s3), s3))"

definition Logger_Flush :: "'w env \<Rightarrow> (error option \<times> 'w env) outcome" where
  "Logger_Flush s = lockAndFlushAll s"

text \<open>The callback of \<^verbatim>\<open>Close\<close>.\<close>

definition close_fn :: "'w Handler \<Rightarrow> 'w env \<Rightarrow> error option \<times> 'w env" where
  "close_fn handler s =
     (case Close_of handler (world s) of
        (Some e, w') \<Rightarrow>
          (None, printlnStderr ''slog: call handler.Close() error:'' e (set_err e (s\<lparr>world := w'\<rparr>)))
      | (None, w') \<Rightarrow> (None, s\<lparr>world := w'\<rparr>))"

definition Logger_Close :: "'w env \<Rightarrow> error option \<times> 'w env" where
  "Logger_Close s = (let s' = snd (VisitAll close_fn s) in (err (logger s'), s'))"

text \<open>\<^verbatim>\<open>LastErr\<close>: fetch the error, clear it, return what was fetched.\<close>

definition LastErr :: "'w Logger \<Rightarrow> error option \<times> 'w Logger" where
  "LastErr l = (let e = err l in (e, l\<lparr>err := None\<rparr>))"

subsection \<open>Observing a fan-out\<close>

text \<open>
  What the handlers return when the operation \<open>f\<close> is run on each of them in turn, every
  one on the world its predecessors left; the errors among these results; and the error
  a logger holds after they have been assigned to \<^verbatim>\<open>l.err\<close> one after the other.
\<close>

fun results :: "('w Handler \<Rightarrow> 'w \<Rightarrow> error option \<times> 'w) \<Rightarrow> 'w Handler list \<Rightarrow> 'w
    \<Rightarrow> error option list" where
  "results f [] w = []"
| "results f (h # hs) w = (case f h w of (r, w') \<Rightarrow> r # results f hs w')"

primrec failures :: "error option list \<Rightarrow> error list" where
  "failures [] = []"
| "failures (r # rs) = (case r of None \<Rightarrow> failures rs | Some e \<Rightarrow> e # failures rs)"

definition retained :: "error option \<Rightarrow> error list \<Rightarrow> error option" where
  "retained e0 es = (if es = [] then e0 else Some (last es))"

text \<open>
  An example: handlers that append their number to the world (a list of numbers) and
  return a fixed result, and a logger with four of them, the first and the third failing.
\<close>

definition spy :: "nat \<Rightarrow> error option \<Rightarrow> nat list Handler" where
  "spy i r = \<lparr>Flush_of = (\<lambda>w. (r, w @ [i])), Close_of = (\<lambda>w. (r, w @ [i + 10]))\<rparr>"

definition example_env :: "nat list env" where
  "example_env =
     \<lparr>logger = \<lparr>name = ''logger'', mu = False, err = None,
         handlers = [spy 1 (Some ''e1''), spy 2 None, spy 3 (Some ''e3''), spy 4 None],
         recordPool = [], CallerSkip = 5\<rparr>,
      world = [], stderr = []\<rparr>"

section \<open>Files and descriptors\<close>

text \<open>
  The part of the operating system the handlers use (package \<^verbatim>\<open>os\<close>): the content of
  every file, the open descriptors with the path each was opened on, and the next free
  descriptor. A file that does not exist has the empty content: the handlers open with
  \<^verbatim>\<open>O_CREATE | O_WRONLY | O_APPEND\<close>, so opening creates it and every write appends.

  Failures are part of the state: for a path, the error that creating its directory,
  opening, syncing or closing it returns, and for writing the number of bytes that are
  still accepted before the error. The theorems hold for every choice of them.
\<close>

type_synonym path = string
type_synonym bytes = string
type_synonym fd = nat

record os_state =
  files :: "path \<Rightarrow> bytes"
  handles :: "(fd \<times> path) list"
  next_fd :: fd
  mkdir_fault :: "path \<Rightarrow> error option"
  open_fault :: "path \<Rightarrow> error option"
  write_fault :: "path \<Rightarrow> (nat \<times> error) option"
  sync_fault :: "path \<Rightarrow> error option"
  close_fault :: "path \<Rightarrow> error option"

text \<open>
  \<^verbatim>\<open>os.MkdirAll(path.Dir(filepath), 0777)\<close>. The directory is a function of the file's
  path, so the failure is looked up by the file's path.
\<close>

definition MkdirAll :: "path \<Rightarrow> os_state \<Rightarrow> error option" where
  "MkdirAll filepath os = mkdir_fault os filepath"

definition OpenFile :: "path \<Rightarrow> os_state \<Rightarrow> (error + fd) \<times> os_state" where
  "OpenFile filepath os =
     (case open_fault os filepath of
        Some e \<Rightarrow> (Inl e, os)
      | None \<Rightarrow>
          (Inr (next_fd os),
           os\<lparr>handles := (next_fd os, filepath) # handles os, next_fd := Suc (next_fd os)\<rparr>))"

text \<open>The methods of \<^verbatim>\<open>*os.File\<close>. On a closed descriptor each of them returns an error.\<close>

definition ErrClosed :: error where
  "ErrClosed = ''file already closed''"

definition File_Write :: "fd \<Rightarrow> bytes \<Rightarrow> os_state \<Rightarrow> (nat \<times> error option) \<times> os_state" where
  "File_Write f p os =
     (case map_of (handles os) f of
        None \<Rightarrow> ((0, Some ErrClosed), os)
      | Some filepath \<Rightarrow>
          (case write_fault os filepath of
             None \<Rightarrow>
               ((length p, None), os\<lparr>files := (files os)(filepath := files os filepath @ p)\<rparr>)
           | Some (k, e) \<Rightarrow>
               ((min k (length p), Some e),
                os\<lparr>files := (files os)(filepath := files os filepath @ take k p)\<rparr>)))"

definition File_Sync :: "fd \<Rightarrow> os_state \<Rightarrow> error option" where
  "File_Sync f os =
     (case map_of (handles os) f of
        None \<Rightarrow> Some ErrClosed
      | Some filepath \<Rightarrow> sync_fault os filepath)"

definition File_Close :: "fd \<Rightarrow> os_state \<Rightarrow> error option \<times> os_state" where
  "File_Close f os =
     (case map_of (handles os) f of
        None \<Rightarrow> (Some ErrClosed, os)
      | Some filepath \<Rightarrow>
          (close_fault os filepath, os\<lparr>handles := filter (\<lambda>(g, q). g \<noteq> f) (handles os)\<rparr>))"

text \<open>How many descriptors are open on a path.\<close>

definition open_count :: "path \<Rightarrow> os_state \<Rightarrow> nat" where
  "open_count filepath os = length (filter (\<lambda>(g, q). q = filepath) (handles os))"

section \<open>The buffered writer of the standard library (bufio.Writer)\<close>

text \<open>
  Both handlers buffer through \<^verbatim>\<open>bufio.Writer\<close>, here over a file descriptor. \<open>w_buf\<close> is
  the filled part \<^verbatim>\<open>b.buf[0:b.n]\<close> of the buffer, \<open>w_size\<close> is \<^verbatim>\<open>len(b.buf)\<close>, \<open>w_err\<close> the
  error the writer keeps once a write to the sink has failed.
\<close>

record Writer =
  w_err :: "error option"
  w_buf :: bytes
  w_size :: nat
  w_wr :: fd

definition defaultBufSize :: nat where
  "defaultBufSize = 4096"

definition ErrShortWrite :: error where
  "ErrShortWrite = ''short write''"

definition NewWriterSize :: "fd \<Rightarrow> int \<Rightarrow> Writer" where
  "NewWriterSize w sz =
     \<lparr>w_err = None, w_buf = [], w_size = (if sz \<le> 0 then defaultBufSize else nat sz), w_wr = w\<rparr>"

definition Available :: "Writer \<Rightarrow> nat" where
  "Available b = w_size b - length (w_buf b)"

definition Buffered :: "Writer \<Rightarrow> nat" where
  "Buffered b = length (w_buf b)"

definition bufio_Flush :: "Writer \<Rightarrow> os_state \<Rightarrow> error option \<times> Writer \<times> os_state" where
  "bufio_Flush b os =
     (if w_err b \<noteq> None then (w_err b, b, os)
      else if Buffered b = 0 then (None, b, os)
      else
        (case File_Write (w_wr b) (w_buf b) os of
           ((n, e), os') \<Rightarrow>
             (case (if n < Buffered b \<and> e = None then Some ErrShortWrite else e) of
                Some x \<Rightarrow> (Some x, b\<lparr>w_buf := drop n (w_buf b), w_err := Some x\<rparr>, os')
              | None \<Rightarrow> (None, b\<lparr>w_buf := []\<rparr>, os'))))"

text \<open>
  The loop of \<^verbatim>\<open>Write\<close>: while \<open>p\<close> does not fit into the free space and no error is
  kept, either write \<open>p\<close> to the sink directly (empty buffer) or fill the buffer up and
  flush it. \<open>nn\<close> counts the bytes taken from \<open>p\<close>.
\<close>

function write_loop :: "Writer \<Rightarrow> bytes \<Rightarrow> nat \<Rightarrow> os_state \<Rightarrow> Writer \<times> bytes \<times> nat \<times> os_state" where
  "write_loop b p nn os =
     (if length p > Available b \<and> w_err b = None then
        (if Buffered b = 0 then
           (case File_Write (w_wr b) p os of
              ((n, e), os') \<Rightarrow> write_loop (b\<lparr>w_err := e\<rparr>) (drop n p) (nn + n) os')
         else
           (let n = min (Available b) (length p) in
            case bufio_Flush (b\<lparr>w_buf := w_buf b @ take n p\<rparr>) os of
              (e, b', os') \<Rightarrow> write_loop b' (drop n p) (nn + n) os'))
      else (b, p, nn, os))"
  by pat_completeness auto

termination
proof (relation "measure (\<lambda>(b, p, nn, os).
    if w_err b = None then 1 + 2 * length p + (if w_buf b = [] then 0 else 1) else 0)")
  show "wf (measure (\<lambda>(b, p, nn, os).
    if w_err b = None then 1 + 2 * length p + (if w_buf b = [] then 0 else 1) else 0))"
    by simp
next
  fix b :: Writer and p :: bytes and nn :: nat and os :: os_state and x xa os' n e
  assume "Available b < length p \<and> w_err b = None" "Buffered b = 0"
    and "(x, os') = File_Write (w_wr b) p os" "(n, e) = x"
  then show "((b\<lparr>w_err := e\<rparr>, drop n p, nn + n, os'), b, p, nn, os)
      \<in> measure (\<lambda>(b, p, nn, os).
        if w_err b = None then 1 + 2 * length p + (if w_buf b = [] then 0 else 1) else 0)"
    by (auto simp: File_Write_def Buffered_def split: option.splits prod.splits)
next
  fix b :: Writer and p :: bytes and nn :: nat and os :: os_state and n x e y b' os'
  assume "Available b < length p \<and> w_err b = None" "Buffered b \<noteq> 0"
    and "n = min (Available b) (length p)"
    and "(e, y) = bufio_Flush (b\<lparr>w_buf := w_buf b @ take n p\<rparr>) os" "(b', os') = y"
  then show "((b', drop n p, nn + n, os'), b, p, nn, os)
      \<in> measure (\<lambda>(b, p, nn, os).
        if w_err b = None then 1 + 2 * length p + (if w_buf b = [] then 0 else 1) else 0)"
    by (auto simp: bufio_Flush_def Buffered_def split: option.splits prod.splits if_splits)
qed

declare write_loop.simps [simp del]

definition bufio_Write :: "Writer \<Rightarrow> bytes \<Rightarrow> os_state \<Rightarrow> (nat \<times> error option) \<times> Writer \<times> os_state" where
  "bufio_Write b p os =
     (case write_loop b p 0 os of
        (b1, p1, nn, os1) \<Rightarrow>
          (if w_err b1 \<noteq> None then ((nn, w_err b1), b1, os1)
           else
             let n = min (Available b1) (length p1)
             in ((nn + n, None), b1\<lparr>w_buf := w_buf b1 @ take n p1\<rparr>, os1)))"

section \<open>The lock of a handler\<close>

text \<open>
  Modelled from the spec: \<^verbatim>\<open>lockWrapper\<close>, which both handlers embed, is not in the
  sources. The spec gives every handler and writer one lock of its own, taken around
  buffer work, and a mode that skips the lock so that it is not taken twice; the
  only lock Go offers for this is \<^verbatim>\<open>sync.Mutex\<close>, which the owner cannot take again.
  \<open>disable\<close> is the switch, \<open>held\<close> the state of the mutex. \<open>Lock\<close> gives \<open>None\<close> when it
  does not return.
\<close>

record lockWrapper =
  disable :: bool
  held :: bool

definition Lock :: "lockWrapper \<Rightarrow> lockWrapper option" where
  "Lock lw = (if disable lw then Some lw else if held lw then None else Some (lw\<lparr>held := True\<rparr>))"

definition Unlock :: "lockWrapper \<Rightarrow> lockWrapper" where
  "Unlock lw = (if disable lw then lw else lw\<lparr>held := False\<rparr>)"

section \<open>The log record (package slog)\<close>

text \<open>
  The type \<^verbatim>\<open>Level\<close> is declared outside the sources. Its values here are the constants
  the methods of the logger name, and \<open>ZeroLevel\<close> for the zero value a new record has.
\<close>

datatype Level =
  ZeroLevel | PanicLevel | FatalLevel | ErrorLevel | WarnLevel | NoticeLevel | InfoLevel
  | DebugLevel | TraceLevel | PrintLevel

text \<open>
  \<^verbatim>\<open>M\<close> is \<^verbatim>\<open>map[string]interface{}\<close>; \<open>None\<close> is the nil map. \<^verbatim>\<open>time.Time\<close> is a
  number, the zero time being 0. The logger a record points back to is the one logger
  of the state it lives in. \<open>rCallerSkip\<close> is the field \<^verbatim>\<open>CallerSkip\<close> of the record, which
  \<^verbatim>\<open>Logger.log\<close> and \<^verbatim>\<open>releaseRecord\<close> assign.
\<close>

type_synonym M = "(string \<rightharpoonup> string) option"

record Record =
  Level :: Level
  LevelName :: string
  Channel :: string
  Message :: string
  Time :: int
  Ctx :: "string option"
  Fields :: M
  Data :: M
  Extra :: M
  Caller :: "(string \<times> nat) option"
  Formatted :: bytes
  rCallerSkip :: int

section \<open>FileHandler (src/handler/file.go)\<close>

text \<open>
  \<^verbatim>\<open>LevelsWithFormatter\<close> is not in the sources; rendering a record,
  \<^verbatim>\<open>h.Formatter().Format(r)\<close>, is the parameter \<open>fmt\<close> of \<open>Handle\<close>.
\<close>

record FileHandler =
  fh_lock :: lockWrapper
  fpath :: path
  file_fd :: fd
  bufio :: "Writer option"
  useJSON :: bool
  NoBuffer :: bool
  fh_BuffSize :: int

definition bufferSize :: int where
  "bufferSize = 256 * 1024"

definition openFile :: "path \<Rightarrow> os_state \<Rightarrow> (error + fd) \<times> os_state" where
  "openFile filepath os =
     (case MkdirAll filepath os of
        Some e \<Rightarrow> (Inl e, os)
      | None \<Rightarrow>
          (case OpenFile filepath os of
             (Inl e, os') \<Rightarrow> (Inl e, os')
           | (Inr f, os') \<Rightarrow> (Inr f, os')))"

definition NewFileHandler :: "path \<Rightarrow> bool \<Rightarrow> os_state \<Rightarrow> (error + FileHandler) \<times> os_state" where
  "NewFileHandler filepath json os =
     (let h = \<lparr>fh_lock = \<lparr>disable = False, held = False\<rparr>, fpath = filepath, file_fd = 0,
                bufio = None, useJSON = json, NoBuffer = False, fh_BuffSize = bufferSize\<rparr>
      in case openFile filepath os of
           (Inl e, os') \<Rightarrow> (Inl e, os')
         | (Inr f, os') \<Rightarrow> (Inr (h\<lparr>file_fd := f\<rparr>), os'))"

definition ReopenFile :: "FileHandler \<Rightarrow> os_state \<Rightarrow> error option \<times> FileHandler \<times> os_state" where
  "ReopenFile h os =
     (case openFile (fpath h) os of
        (Inl e, os') \<Rightarrow> (Some e, h, os')
      | (Inr f, os') \<Rightarrow> (None, h\<lparr>file_fd := f\<rparr>, os'))"

definition FileHandler_Writer :: "FileHandler \<Rightarrow> fd" where
  "FileHandler_Writer h = file_fd h"

definition FileHandler_Flush :: "FileHandler \<Rightarrow> os_state \<Rightarrow> error option \<times> FileHandler \<times> os_state" where
  "FileHandler_Flush h os =
     (case bufio h of
        Some b \<Rightarrow>
          (case bufio_Flush b os of
             (Some e, b', os') \<Rightarrow> (Some e, h\<lparr>bufio := Some b'\<rparr>, os')
           | (None, b', os') \<Rightarrow> (File_Sync (file_fd h) os', h\<lparr>bufio := Some b'\<rparr>, os'))
      | None \<Rightarrow> (File_Sync (file_fd h) os, h, os))"

definition FileHandler_Close :: "FileHandler \<Rightarrow> os_state \<Rightarrow> error option \<times> FileHandler \<times> os_state" where
  "FileHandler_Close h os =
     (case FileHandler_Flush h os of
        (Some e, h', os') \<Rightarrow> (Some e, h', os')
      | (None, h', os') \<Rightarrow>
          (case File_Close (file_fd h') os' of (e, os'') \<Rightarrow> (e, h', os'')))"

definition FileHandler_Handle :: "(Record \<Rightarrow> error + bytes) \<Rightarrow> FileHandler \<Rightarrow> Record \<Rightarrow> os_state
    \<Rightarrow> (error option \<times> FileHandler \<times> os_state) outcome" where
  "FileHandler_Handle fmt h r os =
     (case fmt r of
        Inl e \<Rightarrow> Returns (Some e, h, os)
      | Inr bts \<Rightarrow>
          (case Lock (fh_lock h) of
             None \<Rightarrow> Blocks
           | Some lk \<Rightarrow>
               (if NoBuffer h then
                  (case File_Write (file_fd h) bts os of
                     ((n, e), os') \<Rightarrow> Returns (e, h\<lparr>fh_lock := Unlock lk\<rparr>, os'))
                else
                  (let b = (case bufio h of
                              None \<Rightarrow> NewWriterSize (file_fd h) (fh_BuffSize h)
                            | Some b \<Rightarrow> b)
                   in case bufio_Write b bts os of
                        ((n, e), b', os') \<Rightarrow>
                          Returns (e, h\<lparr>fh_lock := Unlock lk, bufio := Some b'\<rparr>, os')))))"

section \<open>BufferedHandler (src/unnamed/part_002)\<close>

text \<open>
  The wrapped handler is a \<^verbatim>\<open>slog.WriterHandler\<close>; the one the sources have is
  \<^verbatim>\<open>FileHandler\<close>. The buffer writes to what the wrapped handler's \<^verbatim>\<open>Writer()\<close> returned
  when the buffer was made.
\<close>

record BufferedHandler =
  bh_lock :: lockWrapper
  buffer :: "Writer option"
  handler :: FileHandler
  bh_BuffSize :: int

definition NewBufferedHandler :: "FileHandler \<Rightarrow> int \<Rightarrow> BufferedHandler" where
  "NewBufferedHandler inner bufSize =
     \<lparr>bh_lock = \<lparr>disable = False, held = False\<rparr>,
      buffer = Some (NewWriterSize (FileHandler_Writer inner) bufSize),
      handler = inner, bh_BuffSize = bufSize\<rparr>"

definition BufferedHandler_Flush :: "BufferedHandler \<Rightarrow> os_state
    \<Rightarrow> (error option \<times> BufferedHandler \<times> os_state) outcome" where
  "BufferedHandler_Flush h os =
     (case Lock (bh_lock h) of
        None \<Rightarrow> Blocks
      | Some lk \<Rightarrow>
          (case buffer h of
             None \<Rightarrow> Panics
           | Some b \<Rightarrow>
               (case bufio_Flush b os of
                  (Some e, b', os') \<Rightarrow>
                    Returns (Some e, h\<lparr>bh_lock := Unlock lk, buffer := Some b'\<rparr>, os')
                | (None, b', os') \<Rightarrow>
                    (case FileHandler_Flush (handler h) os' of
                       (e, fh', os'') \<Rightarrow>
                         Returns (e, h\<lparr>bh_lock := Unlock lk, buffer := Some b', handler := fh'\<rparr>,
                                  os'')))))"

definition BufferedHandler_Close :: "BufferedHandler \<Rightarrow> os_state
    \<Rightarrow> (error option \<times> BufferedHandler \<times> os_state) outcome" where
  "BufferedHandler_Close h os =
     (case BufferedHandler_Flush h os of
        Returns (Some e, h', os') \<Rightarrow> Returns (Some e, h', os')
      | Returns (None, h', os') \<Rightarrow>
          (case FileHandler_Close (handler h') os' of
             (e, fh', os'') \<Rightarrow> Returns (e, h'\<lparr>handler := fh'\<rparr>, os''))
      | Blocks \<Rightarrow> Blocks
      | Panics \<Rightarrow> Panics)"

definition BufferedHandler_Handle :: "(Record \<Rightarrow> error + bytes) \<Rightarrow> BufferedHandler \<Rightarrow> Record
    \<Rightarrow> os_state \<Rightarrow> (error option \<times> BufferedHandler \<times> os_state) outcome" where
  "BufferedHandler_Handle fmt h record os =
     (case fmt record of
        Inl e \<Rightarrow> Returns (Some e, h, os)
      | Inr bts \<Rightarrow>
          (case Lock (bh_lock h) of
             None \<Rightarrow> Blocks
           | Some lk \<Rightarrow>
               (let b = (case buffer h of
                           None \<Rightarrow> NewWriterSize (FileHandler_Writer (handler h)) (bh_BuffSize h)
                         | Some b \<Rightarrow> b)
                in case bufio_Write b bts os of
                     ((n, e), b', os') \<Rightarrow>
                       (if int (Buffered b') \<ge> bh_BuffSize h then
                          (case BufferedHandler_Flush (h\<lparr>bh_lock := lk, buffer := Some b'\<rparr>) os' of
                             Returns (e', h', os'') \<Rightarrow>
                               Returns (e', h'\<lparr>bh_lock := Unlock (bh_lock h')\<rparr>, os'')
                           | Blocks \<Rightarrow> Blocks
                           | Panics \<Rightarrow> Panics)
                        else Returns (e, h\<lparr>bh_lock := Unlock lk, buffer := Some b'\<rparr>, os')))))"


section \<open>Config (src/handler/config.go, package handler)\<close>

record Config =
  Logfile :: string
  Levels :: "Level list"
  UseJSON :: bool
  BuffMode :: string
  BuffSize :: int
  RotateTime :: int
  MaxSize :: "64 word"
  Compress :: bool
  BackupNum :: nat
  BackupTime :: nat
  RenameFunc :: "(string \<Rightarrow> nat \<Rightarrow> string) option"

definition BuffModeLine :: string where
  "BuffModeLine = ''line''"

text \<open>
  The configuration of package \<^verbatim>\<open>rotatefile\<close>, with the fields \<^verbatim>\<open>CreateWriter\<close> assigns.
\<close>

record rotate_Config =
  CloseLock :: bool
  Filepath :: string
  rc_MaxSize :: "64 word"
  rc_RotateTime :: int
  rc_BackupNum :: nat
  rc_BackupTime :: nat
  rc_Compress :: bool
  rc_RenameFunc :: "(string \<Rightarrow> nat \<Rightarrow> string) option"

text \<open>
  The packages \<^verbatim>\<open>rotatefile\<close>, \<^verbatim>\<open>bufwrite\<close> and \<^verbatim>\<open>fsutil\<close> are not in the sources. What
  \<^verbatim>\<open>CreateWriter\<close> calls of them is a parameter: the functions that open a writer act on
  a system state \<open>'os\<close> and may fail, the two that wrap a writer \<open>'wr\<close> in a buffer are pure.
\<close>

record ('os, 'wr) packages =
  EmptyConfigWith :: rotate_Config
  rc_Create :: "rotate_Config \<Rightarrow> 'os \<Rightarrow> (error + 'wr) \<times> 'os"
  QuickOpenFile :: "string \<Rightarrow> 'os \<Rightarrow> (error + 'wr) \<times> 'os"
  NewLineWriterSize :: "'wr \<Rightarrow> int \<Rightarrow> 'wr"
  NewBufIOWriterSize :: "'wr \<Rightarrow> int \<Rightarrow> 'wr"

definition wrapBuffer :: "('os, 'wr) packages \<Rightarrow> Config \<Rightarrow> 'wr \<Rightarrow> 'wr outcome" where
  "wrapBuffer pk c w =
     (if BuffSize c = 0 then Panics
      else if BuffMode c = BuffModeLine then Returns (NewLineWriterSize pk w (BuffSize c))
      else Returns (NewBufIOWriterSize pk w (BuffSize c)))"

definition CreateWriter :: "('os, 'wr) packages \<Rightarrow> Config \<Rightarrow> 'os \<Rightarrow> ((error + 'wr) \<times> 'os) outcome" where
  "CreateWriter pk c os =
     (if Logfile c = [] then
        Returns (Inl ''slog: logfile cannot be empty for create writer'', os)
      else
        (case (if MaxSize c > 0 \<or> RotateTime c > 0 then
                 (let rc = (EmptyConfigWith pk)
                        \<lparr>CloseLock := True, Filepath := Logfile c, rc_MaxSize := MaxSize c,
                         rc_RotateTime := RotateTime c, rc_BackupNum := BackupNum c,
                         rc_BackupTime := BackupTime c, rc_Compress := Compress c\<rparr>;
                      rc' = (case RenameFunc c of
                               None \<Rightarrow> rc
                             | Some fn \<Rightarrow> rc\<lparr>rc_RenameFunc := Some fn\<rparr>)
                  in rc_Create pk rc' os)
               else QuickOpenFile pk (Logfile c) os) of
           (Inl e, os') \<Rightarrow> Returns (Inl e, os')
         | (Inr output, os') \<Rightarrow>
             (if BuffSize c > 0 then
                (case wrapBuffer pk c output of
                   Returns w \<Rightarrow> Returns (Inr w, os')
                 | Blocks \<Rightarrow> Blocks
                 | Panics \<Rightarrow> Panics)
              else Returns (Inr output, os'))))"

definition RotateWriter :: "('os, 'wr) packages \<Rightarrow> Config \<Rightarrow> 'os \<Rightarrow> ((error + 'wr) \<times> 'os) outcome" where
  "RotateWriter pk c os =
     (if MaxSize c = 0 \<and> RotateTime c = 0 then
        Returns (Inl ''slog: cannot create rotate writer, MaxSize and RotateTime both is 0'', os)
      else CreateWriter pk c os)"

section \<open>The record pool of the logger\<close>

text \<open>
  Records live in a heap and are passed by address, as the \<^verbatim>\<open>*Record\<close> of the source.
  \<open>next_addr\<close> is the first address not yet allocated.
\<close>

record heap =
  cells :: "addr \<Rightarrow> Record"
  next_addr :: addr

definition zero_Record :: Record where
  "zero_Record =
     \<lparr>Level = ZeroLevel, LevelName = [], Channel = [], Message = [], Time = 0, Ctx = None,
      Fields = None, Data = None, Extra = None, Caller = None, Formatted = [], rCallerSkip = 0\<rparr>"

text \<open>
  Modelled from the spec: \<^verbatim>\<open>emptyTime\<close> is not in the sources; it is the empty value of
  the timestamp, the zero time.
\<close>

definition emptyTime :: int where
  "emptyTime = 0"

definition alloc :: "Record \<Rightarrow> heap \<Rightarrow> addr \<times> heap" where
  "alloc v hp = (next_addr hp, hp\<lparr>cells := (cells hp)(next_addr hp := v), next_addr := Suc (next_addr hp)\<rparr>)"

definition modify :: "addr \<Rightarrow> (Record \<Rightarrow> Record) \<Rightarrow> heap \<Rightarrow> heap" where
  "modify r f hp = hp\<lparr>cells := (cells hp)(r := f (cells hp r))\<rparr>"

text \<open>\<^verbatim>\<open>newRecord(logger)\<close> of src/unnamed/part_000, the \<^verbatim>\<open>New\<close> function of the pool.\<close>

definition newRecord :: "heap \<Rightarrow> addr \<times> heap" where
  "newRecord hp = alloc (zero_Record\<lparr>Fields := Some Map.empty\<rparr>) hp"

text \<open>
  \<^verbatim>\<open>sync.Pool\<close>. \<^verbatim>\<open>Put\<close> adds a record to the pool. \<^verbatim>\<open>Get\<close> takes any one of the records in
  the pool out of it, or none of them, and then the \<^verbatim>\<open>New\<close> function makes one; the program
  does not determine which. The choice is the parameter \<open>pick\<close> of every function that
  acquires a record: \<open>Some i\<close> for the record at position \<open>i\<close> of the pool, \<open>None\<close> or a
  position beyond the pool for a new record. A record the pool drops on its own is one
  that no \<^verbatim>\<open>Get\<close> picks.
\<close>

definition Pool_Get :: "nat option \<Rightarrow> addr list \<Rightarrow> addr option \<times> addr list" where
  "Pool_Get pick pool =
     (case pick of
        None \<Rightarrow> (None, pool)
      | Some i \<Rightarrow>
          (if i < length pool then (Some (pool ! i), take i pool @ drop (Suc i) pool)
           else (None, pool)))"

definition Pool_Put :: "addr \<Rightarrow> addr list \<Rightarrow> addr list" where
  "Pool_Put r pool = r # pool"

definition Logger_newRecord :: "nat option \<Rightarrow> 'w Logger \<Rightarrow> heap \<Rightarrow> addr \<times> 'w Logger \<times> heap" where
  "Logger_newRecord pick l hp =
     (case Pool_Get pick (recordPool l) of
        (None, pool) \<Rightarrow> (case newRecord hp of (r, hp') \<Rightarrow> (r, l\<lparr>recordPool := pool\<rparr>, hp'))
      | (Some r, pool) \<Rightarrow> (r, l\<lparr>recordPool := pool\<rparr>, hp))"

definition releaseRecord :: "'w Logger \<Rightarrow> addr \<Rightarrow> heap \<Rightarrow> 'w Logger \<times> heap" where
  "releaseRecord l r hp =
     (l\<lparr>recordPool := Pool_Put r (recordPool l)\<rparr>,
      modify r (\<lambda>v. v\<lparr>Time := emptyTime, Data := None, Extra := None, Fields := None,
                       rCallerSkip := CallerSkip l\<rparr>) hp)"

subsection \<open>Methods of Record (src/unnamed/part_000)\<close>

definition Record_WithContext :: "addr \<Rightarrow> string option \<Rightarrow> heap \<Rightarrow> addr \<times> heap" where
  "Record_WithContext r ctx hp = (r, modify r (\<lambda>v. v\<lparr>Ctx := ctx\<rparr>) hp)"

definition Record_WithFields :: "addr \<Rightarrow> M \<Rightarrow> heap \<Rightarrow> addr \<times> heap" where
  "Record_WithFields r fs hp =
     alloc (zero_Record\<lparr>Time := Time (cells hp r), Level := Level (cells hp r),
              LevelName := LevelName (cells hp r), Message := Message (cells hp r),
              Fields := fs\<rparr>) hp"

definition Record_WithField :: "addr \<Rightarrow> string \<Rightarrow> string \<Rightarrow> heap \<Rightarrow> addr \<times> heap" where
  "Record_WithField r nm val hp = Record_WithFields r (Some [nm \<mapsto> val]) hp"

text \<open>
  \<^verbatim>\<open>Record.log\<close>. \<^verbatim>\<open>Logger.write\<close> and \<^verbatim>\<open>Level.String\<close> are not in the sources; they are the
  parameters \<open>write\<close>, which may change the logger and the heap, and \<open>lname\<close>.
\<close>

definition Record_log :: "(Level \<Rightarrow> addr \<Rightarrow> 'w Logger \<times> heap \<Rightarrow> 'w Logger \<times> heap) \<Rightarrow> (Level \<Rightarrow> string)
    \<Rightarrow> addr \<Rightarrow> Level \<Rightarrow> string \<Rightarrow> 'w Logger \<times> heap \<Rightarrow> 'w Logger \<times> heap" where
  "Record_log write lname r level message s =
     write level r
       (fst s, modify r (\<lambda>v. v\<lparr>Level := level, LevelName := lname level, Message := message\<rparr>) (snd s))"

subsection \<open>Methods of Logger that hand out a record\<close>

text \<open>
  Each of them defers \<^verbatim>\<open>releaseRecord\<close>: the result is computed first, the release runs
  before the caller gets it.
\<close>

definition Logger_Record :: "nat option \<Rightarrow> 'w Logger \<Rightarrow> heap \<Rightarrow> addr \<times> 'w Logger \<times> heap" where
  "Logger_Record pick l hp =
     (case Logger_newRecord pick l hp of
        (r, l1, hp1) \<Rightarrow>
          (case releaseRecord l1 r hp1 of (l2, hp2) \<Rightarrow> (r, l2, hp2)))"

definition Logger_WithField :: "nat option \<Rightarrow> string \<Rightarrow> string \<Rightarrow> 'w Logger \<Rightarrow> heap \<Rightarrow> addr \<times> 'w Logger \<times> heap" where
  "Logger_WithField pick nm val l hp =
     (case Logger_newRecord pick l hp of
        (r, l1, hp1) \<Rightarrow>
          (case Record_WithField r nm val hp1 of
             (res, hp2) \<Rightarrow>
               (case releaseRecord l1 r hp2 of (l3, hp3) \<Rightarrow> (res, l3, hp3))))"

definition Logger_WithFields :: "nat option \<Rightarrow> M \<Rightarrow> 'w Logger \<Rightarrow> heap \<Rightarrow> addr \<times> 'w Logger \<times> heap" where
  "Logger_WithFields pick fs l hp =
     (case Logger_newRecord pick l hp of
        (r, l1, hp1) \<Rightarrow>
          (case Record_WithFields r fs hp1 of
             (res, hp2) \<Rightarrow>
               (case releaseRecord l1 r hp2 of (l3, hp3) \<Rightarrow> (res, l3, hp3))))"

text \<open>
  \<^verbatim>\<open>Record.WithData\<close> and \<^verbatim>\<open>Record.WithTime\<close> are not in the sources: the parameter \<open>with\<close>
  is the method of the record that is called.
\<close>

definition Logger_WithData :: "nat option \<Rightarrow> (addr \<Rightarrow> M \<Rightarrow> heap \<Rightarrow> addr \<times> heap) \<Rightarrow> M \<Rightarrow> 'w Logger \<Rightarrow> heap
    \<Rightarrow> addr \<times> 'w Logger \<times> heap" where
  "Logger_WithData pick with data l hp =
     (case Logger_newRecord pick l hp of
        (r, l1, hp1) \<Rightarrow>
          (case with r data hp1 of
             (res, hp2) \<Rightarrow>
               (case releaseRecord l1 r hp2 of (l3, hp3) \<Rightarrow> (res, l3, hp3))))"

definition Logger_WithTime :: "nat option \<Rightarrow> (addr \<Rightarrow> int \<Rightarrow> heap \<Rightarrow> addr \<times> heap) \<Rightarrow> int \<Rightarrow> 'w Logger \<Rightarrow> heap
    \<Rightarrow> addr \<times> 'w Logger \<times> heap" where
  "Logger_WithTime pick with t l hp =
     (case Logger_newRecord pick l hp of
        (r, l1, hp1) \<Rightarrow>
          (case with r t hp1 of
             (res, hp2) \<Rightarrow>
               (case releaseRecord l1 r hp2 of (l3, hp3) \<Rightarrow> (res, l3, hp3))))"

definition Logger_WithContext :: "nat option \<Rightarrow> string option \<Rightarrow> 'w Logger \<Rightarrow> heap \<Rightarrow> addr \<times> 'w Logger \<times> heap" where
  "Logger_WithContext pick ctx l hp =
     (case Logger_newRecord pick l hp of
        (r, l1, hp1) \<Rightarrow>
          (case Record_WithContext r ctx hp1 of
             (res, hp2) \<Rightarrow>
               (case releaseRecord l1 r hp2 of (l3, hp3) \<Rightarrow> (res, l3, hp3))))"

subsection \<open>The leveled logging call\<close>

text \<open>
  \<^verbatim>\<open>Logger.log\<close>, which every leveled method (\<^verbatim>\<open>Info\<close>, \<^verbatim>\<open>Warn\<close>, \<^verbatim>\<open>Error\<close>, ...) calls.
  \<open>message\<close> is the text made of the arguments, \<open>pick\<close> the choice of the pool.
\<close>

definition Logger_log :: "(Level \<Rightarrow> addr \<Rightarrow> 'w Logger \<times> heap \<Rightarrow> 'w Logger \<times> heap) \<Rightarrow> (Level \<Rightarrow> string)
    \<Rightarrow> nat option \<Rightarrow> Level \<Rightarrow> string \<Rightarrow> 'w Logger \<Rightarrow> heap \<Rightarrow> 'w Logger \<times> heap" where
  "Logger_log write lname pick level message l hp =
     (case Logger_newRecord pick l hp of
        (r, l1, hp1) \<Rightarrow>
          (case Record_log write lname r level message
                  (l1, modify r (\<lambda>v. v\<lparr>rCallerSkip := rCallerSkip v + 1\<rparr>) hp1) of
             (l2, hp2) \<Rightarrow> releaseRecord l2 r hp2))"

definition Logger_Info :: "(Level \<Rightarrow> addr \<Rightarrow> 'w Logger \<times> heap \<Rightarrow> 'w Logger \<times> heap) \<Rightarrow> (Level \<Rightarrow> string)
    \<Rightarrow> nat option \<Rightarrow> string \<Rightarrow> 'w Logger \<Rightarrow> heap \<Rightarrow> 'w Logger \<times> heap" where
  "Logger_Info write lname pick message l hp = Logger_log write lname pick InfoLevel message l hp"


section \<open>Notions for stating the properties\<close>

text \<open>
  For a method of the logger that hands out a record: the record it acquired from the
  pool, the address it returns, the pool it leaves, and the record an acquisition from
  that pool gives.
\<close>

definition acquired :: "nat option \<Rightarrow> 'w Logger \<Rightarrow> heap \<Rightarrow> addr" where
  "acquired pick l hp = fst (Logger_newRecord pick l hp)"

definition returned :: "addr \<times> 'w Logger \<times> heap \<Rightarrow> addr" where
  "returned x = fst x"

definition pool_after :: "addr \<times> 'w Logger \<times> heap \<Rightarrow> addr list" where
  "pool_after x = recordPool (fst (snd x))"

definition next_acquired :: "nat option \<Rightarrow> addr \<times> 'w Logger \<times> heap \<Rightarrow> addr" where
  "next_acquired pick x = fst (Logger_newRecord pick (fst (snd x)) (snd (snd x)))"

section \<open>Examples\<close>

text \<open>
  A system with no open file and no failure; the same after \<^verbatim>\<open>app.log\<close> has been opened,
  with a full disk, after three bytes have been written, and after the file has been
  closed again.
\<close>

definition example_os :: os_state where
  "example_os =
     \<lparr>files = (\<lambda>_. []), handles = [], next_fd = 3, mkdir_fault = (\<lambda>_. None),
      open_fault = (\<lambda>_. None), write_fault = (\<lambda>_. None), sync_fault = (\<lambda>_. None),
      close_fault = (\<lambda>_. None)\<rparr>"

definition example_os_open :: os_state where
  "example_os_open = example_os\<lparr>handles := [(3, ''app.log'')], next_fd := 4\<rparr>"

definition example_os_full :: os_state where
  "example_os_full = example_os_open\<lparr>write_fault := (\<lambda>_. Some (0, ''no space left on device''))\<rparr>"

definition example_os_abc :: os_state where
  "example_os_abc = example_os_open\<lparr>files := (files example_os_open)(''app.log'' := ''abc'')\<rparr>"

definition example_os_closed :: os_state where
  "example_os_closed = example_os_abc\<lparr>handles := []\<rparr>"

text \<open>
  The handler \<^verbatim>\<open>NewFileHandler("app.log", false)\<close> returns on the empty system; the same
  handler with \<^verbatim>\<open>BuffSize\<close> configured to 4 and a buffer of that size holding the given
  bytes; a \<^verbatim>\<open>BufferedHandler\<close> of size 4 around it, with its lock switched off or not.
\<close>

definition example_fh :: FileHandler where
  "example_fh =
     \<lparr>fh_lock = \<lparr>disable = False, held = False\<rparr>, fpath = ''app.log'', file_fd = 3,
      bufio = None, useJSON = False, NoBuffer = False, fh_BuffSize = bufferSize\<rparr>"

definition example_writer :: "bytes \<Rightarrow> Writer" where
  "example_writer bs = \<lparr>w_err = None, w_buf = bs, w_size = 4, w_wr = 3\<rparr>"

definition example_full_writer :: Writer where
  "example_full_writer = (example_writer ''abc'')\<lparr>w_err := Some ''no space left on device''\<rparr>"

definition example_fh4 :: "bytes \<Rightarrow> FileHandler" where
  "example_fh4 bs = example_fh\<lparr>fh_BuffSize := 4, bufio := Some (example_writer bs)\<rparr>"

definition example_bh :: "bool \<Rightarrow> bytes \<Rightarrow> BufferedHandler" where
  "example_bh off bs =
     (NewBufferedHandler example_fh 4)
       \<lparr>bh_lock := \<lparr>disable = off, held = False\<rparr>, buffer := Some (example_writer bs)\<rparr>"

text \<open>A formatter that renders a record as its message, and a record to log.\<close>

definition fmt_message :: "Record \<Rightarrow> error + bytes" where
  "fmt_message r = Inr (Message r)"

definition example_record :: "string \<Rightarrow> Record" where
  "example_record msg = zero_Record\<lparr>Level := InfoLevel, LevelName := ''INFO'', Message := msg\<rparr>"

text \<open>
  Packages that note every file they open in the system state, and a configuration with
  both rotation triggers off.
\<close>

definition example_packages :: "(string list, string) packages" where
  "example_packages =
     \<lparr>EmptyConfigWith =
        \<lparr>CloseLock = False, Filepath = [], rc_MaxSize = 0, rc_RotateTime = 0, rc_BackupNum = 0,
         rc_BackupTime = 0, rc_Compress = False, rc_RenameFunc = None\<rparr>,
      rc_Create = (\<lambda>rc os. (Inr (Filepath rc), os @ [Filepath rc])),
      QuickOpenFile = (\<lambda>p os. (Inr p, os @ [p])),
      NewLineWriterSize = (\<lambda>w n. ''line:'' @ w),
      NewBufIOWriterSize = (\<lambda>w n. ''bufio:'' @ w)\<rparr>"

definition example_config :: Config where
  "example_config =
     \<lparr>Logfile = ''app.log'', Levels = [], UseJSON = False, BuffMode = ''line'', BuffSize = 8192,
      RotateTime = 0, MaxSize = 0, Compress = False, BackupNum = 20, BackupTime = 168,
      RenameFunc = None\<rparr>"

text \<open>
  An empty heap, a logger with no handler and an empty pool, a dispatch that does nothing
  (as there is no handler), level names, and a method of a record that returns the
  record itself.
\<close>

definition example_heap :: heap where
  "example_heap = \<lparr>cells = (\<lambda>_. zero_Record), next_addr = 0\<rparr>"

definition example_logger :: "nat list Logger" where
  "example_logger = (logger example_env)\<lparr>handlers := []\<rparr>"

definition no_write :: "Level \<Rightarrow> addr \<Rightarrow> 'w Logger \<times> heap \<Rightarrow> 'w Logger \<times> heap" where
  "no_write level r s = s"

definition example_lname :: "Level \<Rightarrow> string" where
  "example_lname level = (if level = InfoLevel then ''INFO'' else ''OTHER'')"

definition example_with :: "addr \<Rightarrow> 'a \<Rightarrow> heap \<Rightarrow> addr \<times> heap" where
  "example_with r x hp = (r, hp)"

text \<open>The logger and the heap after \<^verbatim>\<open>WithContext\<close> has put a context on a record.\<close>

definition example_after_WithContext :: "nat list Logger \<times> heap" where
  "example_after_WithContext =
     snd (Logger_WithContext None (Some ''request'') example_logger example_heap)"

section \<open>LastErr\<close>

text \<open>
  C3. \<^verbatim>\<open>LastErr()\<close> returns the error held by the logger and clears it: once an error \<open>e\<close>
  has been recorded (the assignment \<^verbatim>\<open>l.err = err\<close>), \<^verbatim>\<open>LastErr()\<close> returns \<open>e\<close>, whatever
  was recorded before, and a second \<^verbatim>\<open>LastErr()\<close> right after it returns nil.
\<close>

theorem LastErr_returns_and_clears:
  "fst (LastErr l) = err l
   \<and> err (snd (LastErr l)) = None
   \<and> fst (LastErr (l\<lparr>err := Some e\<rparr>)) = Some e
   \<and> fst (LastErr (snd (LastErr (l\<lparr>err := Some e\<rparr>)))) = None"
  by (simp add: LastErr_def)

section \<open>Fan-out over the handlers\<close>

lemma retained_Cons: "retained (Some e) es = retained e0 (e # es)"
  by (simp add: retained_def)

lemma flush_fn_None:
  "Flush_of h (world s) = (None, w') \<Longrightarrow> flush_fn h s = (None, s\<lparr>world := w'\<rparr>)"
  by (simp add: flush_fn_def)

lemma flush_fn_Some:
  "Flush_of h (world s) = (Some e, w') \<Longrightarrow>
   flush_fn h s = (None, s\<lparr>world := w', logger := (logger s)\<lparr>err := Some e\<rparr>,
     stderr := stderr s @ [''slog: call handler.Flush() error: '' @ e]\<rparr>)"
  by (simp add: flush_fn_def set_err_def printlnStderr_def)

lemma visit_flush_fn:
  "visit flush_fn hs s =
     (None, s\<lparr>world := foldl (\<lambda>w h. snd (Flush_of h w)) (world s) hs,
              logger := (logger s)\<lparr>err := retained (err (logger s)) (failures (results Flush_of hs (world s)))\<rparr>,
              stderr := stderr s @ map (\<lambda>e. ''slog: call handler.Flush() error: '' @ e) (failures (results Flush_of hs (world s)))\<rparr>)"
proof (induction hs arbitrary: s)
  case Nil
  show ?case by (simp add: retained_def)
next
  case (Cons h hs)
  show ?case
  proof (cases "Flush_of h (world s)")
    case (Pair r w')
    show ?thesis
    proof (cases r)
      case None
      with Pair show ?thesis
        by (simp add: flush_fn_None Cons.IH)
    next
      case (Some e)
      with Pair show ?thesis
        by (simp add: flush_fn_Some Cons.IH retained_Cons [of e _ "err (logger s)"])
    qed
  qed
qed

lemma close_fn_None:
  "Close_of h (world s) = (None, w') \<Longrightarrow> close_fn h s = (None, s\<lparr>world := w'\<rparr>)"
  by (simp add: close_fn_def)

lemma close_fn_Some:
  "Close_of h (world s) = (Some e, w') \<Longrightarrow>
   close_fn h s = (None, s\<lparr>world := w', logger := (logger s)\<lparr>err := Some e\<rparr>,
     stderr := stderr s @ [''slog: call handler.Close() error: '' @ e]\<rparr>)"
  by (simp add: close_fn_def set_err_def printlnStderr_def)

lemma visit_close_fn:
  "visit close_fn hs s =
     (None, s\<lparr>world := foldl (\<lambda>w h. snd (Close_of h w)) (world s) hs,
              logger := (logger s)\<lparr>err := retained (err (logger s)) (failures (results Close_of hs (world s)))\<rparr>,
              stderr := stderr s @ map (\<lambda>e. ''slog: call handler.Close() error: '' @ e) (failures (results Close_of hs (world s)))\<rparr>)"
proof (induction hs arbitrary: s)
  case Nil
  show ?case by (simp add: retained_def)
next
  case (Cons h hs)
  show ?case
  proof (cases "Close_of h (world s)")
    case (Pair r w')
    show ?thesis
    proof (cases r)
      case None
      with Pair show ?thesis
        by (simp add: close_fn_None Cons.IH)
    next
      case (Some e)
      with Pair show ?thesis
        by (simp add: close_fn_Some Cons.IH retained_Cons [of e _ "err (logger s)"])
    qed
  qed
qed

lemma flushAll_world:
  "world (flushAll s) = foldl (\<lambda>w h. snd (Flush_of h w)) (world s) (handlers (logger s))"
  by (simp add: flushAll_def VisitAll_def visit_flush_fn)

lemma flushAll_err:
  "err (logger (flushAll s)) =
     retained (err (logger s)) (failures (results Flush_of (handlers (logger s)) (world s)))"
  by (simp add: flushAll_def VisitAll_def visit_flush_fn)

lemma Close_world:
  "world (snd (Logger_Close s)) = foldl (\<lambda>w h. snd (Close_of h w)) (world s) (handlers (logger s))"
  by (simp add: Logger_Close_def VisitAll_def visit_close_fn)

lemma Close_err:
  "fst (Logger_Close s) = retained (err (logger s)) (failures (results Close_of (handlers (logger s)) (world s)))
   \<and> err (logger (snd (Logger_Close s))) = fst (Logger_Close s)"
  by (simp add: Logger_Close_def VisitAll_def visit_close_fn)

lemma Flush_unlocked:
  "\<not> mu (logger s) \<Longrightarrow>
   Logger_Flush s = Returns (err (logger (flushAll (s\<lparr>logger := (logger s)\<lparr>mu := True\<rparr>\<rparr>))),
      (flushAll (s\<lparr>logger := (logger s)\<lparr>mu := True\<rparr>\<rparr>))\<lparr>logger := (logger (flushAll (s\<lparr>logger := (logger s)\<lparr>mu := True\<rparr>\<rparr>)))\<lparr>mu := False\<rparr>\<rparr>)"
  by (simp add: Logger_Flush_def lockAndFlushAll_def Let_def)

text \<open>
  C5. \<^verbatim>\<open>Flush()\<close> and \<^verbatim>\<open>Close()\<close> run the operation on every registered handler in
  registration order, whatever the handlers return: the world they leave is the world
  after every handler's operation has been applied in turn. \<^verbatim>\<open>Flush()\<close> returns when the
  logger's mutex is free.
\<close>

theorem fan_out_visits_every_handler:
  "world (flushAll s) = foldl (\<lambda>w h. snd (Flush_of h w)) (world s) (handlers (logger s))
   \<and> (\<not> mu (logger s) \<longrightarrow>
        (\<exists>e s'. Logger_Flush s = Returns (e, s')
           \<and> world s' = foldl (\<lambda>w h. snd (Flush_of h w)) (world s) (handlers (logger s))))
   \<and> world (snd (Logger_Close s)) = foldl (\<lambda>w h. snd (Close_of h w)) (world s) (handlers (logger s))"
  by (simp add: flushAll_world Close_world Flush_unlocked)

theorem fan_out_visits_every_handler_witness:
  "\<not> mu (logger example_env)
   \<and> (\<exists>e s'. Logger_Flush example_env = Returns (e, s') \<and> world s' = [1, 2, 3, 4])
   \<and> world (snd (Logger_Close example_env)) = [11, 12, 13, 14]"
  using fan_out_visits_every_handler [of example_env]
  by (simp add: example_env_def spy_def)

text \<open>
  C4. When two or more handlers fail during a fan-out, the logger holds afterwards the
  error of the last failing handler in registration order, and \<^verbatim>\<open>Flush()\<close> and
  \<^verbatim>\<open>Close()\<close> return it; the errors of the handlers before it are gone.
\<close>

theorem fan_out_keeps_last_error:
  "(2 \<le> length (failures (results Flush_of (handlers (logger s)) (world s))) \<longrightarrow>
      err (logger (flushAll s)) = Some (last (failures (results Flush_of (handlers (logger s)) (world s))))
      \<and> (\<not> mu (logger s) \<longrightarrow> (\<exists>s'. Logger_Flush s =
            Returns (Some (last (failures (results Flush_of (handlers (logger s)) (world s)))), s'))))
   \<and> (2 \<le> length (failures (results Close_of (handlers (logger s)) (world s))) \<longrightarrow>
      fst (Logger_Close s) = Some (last (failures (results Close_of (handlers (logger s)) (world s))))
      \<and> err (logger (snd (Logger_Close s))) = Some (last (failures (results Close_of (handlers (logger s)) (world s)))))"
proof -
  have ne: "2 \<le> length es \<Longrightarrow> retained e0 es = Some (last es)" for e0 :: "error option" and es
    by (auto simp: retained_def)
  show ?thesis
    by (auto simp: flushAll_err Close_err Flush_unlocked ne)
qed

theorem fan_out_keeps_last_error_witness:
  "2 \<le> length (failures (results Flush_of (handlers (logger example_env)) (world example_env)))
   \<and> err (logger (flushAll example_env)) = Some ''e3''
   \<and> \<not> mu (logger example_env)
   \<and> (\<exists>s'. Logger_Flush example_env = Returns (Some ''e3'', s'))
   \<and> 2 \<le> length (failures (results Close_of (handlers (logger example_env)) (world example_env)))
   \<and> fst (Logger_Close example_env) = Some ''e3''
   \<and> err (logger (snd (Logger_Close example_env))) = Some ''e3''"
  using fan_out_keeps_last_error [of example_env]
  by (simp add: example_env_def spy_def)

section \<open>Handle and the flush threshold\<close>

lemma write_loop_stop:
  "\<not> (length p > Available b \<and> w_err b = None) \<Longrightarrow> write_loop b p nn os = (b, p, nn, os)"
  by (subst write_loop.simps) auto

text \<open>Bytes that fit into the free space are appended to the buffer and nothing is written.\<close>

lemma bufio_Write_fits:
  assumes "length p \<le> Available b" "w_err b = None"
  shows "bufio_Write b p os = ((length p, None), b\<lparr>w_buf := w_buf b @ p\<rparr>, os)"
  using assms by (simp add: bufio_Write_def write_loop_stop)

lemma Unlock_Lock: "\<not> held lw \<Longrightarrow> Lock lw = Some lk \<Longrightarrow> Unlock lk = lw"
  by (auto simp: Lock_def Unlock_def split: if_splits)

lemma Lock_free: "\<not> held lw \<Longrightarrow> \<exists>lk. Lock lw = Some lk"
  by (simp add: Lock_def)

text \<open>
  \<^verbatim>\<open>BufferedHandler.Handle\<close> below the threshold: the bytes are appended to the buffer and
  the system is unchanged.
\<close>

lemma BufferedHandler_Handle_below:
  assumes "fmt r = Inr bts" "buffer h = Some b" "w_err b = None" "\<not> held (bh_lock h)"
    and "length (w_buf b) + length bts \<le> w_size b"
    and "int (length (w_buf b) + length bts) < bh_BuffSize h"
  shows "BufferedHandler_Handle fmt h r os =
           Returns (None, h\<lparr>buffer := Some (b\<lparr>w_buf := w_buf b @ bts\<rparr>)\<rparr>, os)"
proof -
  obtain lk where lk: "Lock (bh_lock h) = Some lk" using Lock_free assms(4) by blast
  have fits: "length bts \<le> Available b" using assms(5) by (simp add: Available_def)
  have "h\<lparr>bh_lock := Unlock lk, buffer := Some (b\<lparr>w_buf := w_buf b @ bts\<rparr>)\<rparr>
      = h\<lparr>buffer := Some (b\<lparr>w_buf := w_buf b @ bts\<rparr>)\<rparr>"
    using Unlock_Lock [OF assms(4) lk] by simp
  then show ?thesis
    using assms lk by (simp add: BufferedHandler_Handle_def bufio_Write_fits [OF fits] Buffered_def)
qed

text \<open>
  At the threshold \<^verbatim>\<open>BufferedHandler.Handle\<close> holds the lock when it calls \<^verbatim>\<open>h.Flush()\<close>,
  which takes the lock first. So it is for every handler \<^verbatim>\<open>NewBufferedHandler\<close> makes and
  a record that fills the buffer.
\<close>

lemma BufferedHandler_Handle_locks_twice:
  assumes "fmt r = Inr bts" "buffer h = Some b" "w_err b = None"
    and "\<not> disable (bh_lock h)" "\<not> held (bh_lock h)"
    and "length (w_buf b) + length bts = w_size b" "bh_BuffSize h \<le> int (w_size b)"
  shows "BufferedHandler_Handle fmt h r os = Blocks"
proof -
  have fits: "length bts \<le> Available b" using assms(6) by (simp add: Available_def)
  have lk: "Lock (bh_lock h) = Some ((bh_lock h)\<lparr>held := True\<rparr>)"
    using assms(4,5) by (simp add: Lock_def)
  have "BufferedHandler_Flush
      (h\<lparr>bh_lock := (bh_lock h)\<lparr>held := True\<rparr>, buffer := Some (b\<lparr>w_buf := w_buf b @ bts\<rparr>)\<rparr>) os = Blocks"
    using assms(4) by (simp add: BufferedHandler_Flush_def Lock_def)
  then show ?thesis
    using assms lk by (simp add: BufferedHandler_Handle_def bufio_Write_fits [OF fits] Buffered_def)
qed

lemma NewBufferedHandler_Handle_blocks:
  assumes "fmt r = Inr bts" "0 < n" "length bts = nat n"
  shows "BufferedHandler_Handle fmt (NewBufferedHandler inner n) r os = Blocks"
  using assms
  by (intro BufferedHandler_Handle_locks_twice [where b = "NewWriterSize (FileHandler_Writer inner) n"])
    (simp_all add: NewBufferedHandler_def NewWriterSize_def)

text \<open>
  \<^verbatim>\<open>FileHandler.Handle\<close> on a handler that has not buffered yet, as \<^verbatim>\<open>NewFileHandler\<close>
  returns it: the buffer is made with \<^verbatim>\<open>BuffSize\<close>, and a record of up to \<^verbatim>\<open>BuffSize\<close> bytes
  is appended to it and the system is unchanged, also when the record fills the buffer.
\<close>

lemma FileHandler_Handle_fills_new_buffer:
  assumes "fmt r = Inr bts" "\<not> NoBuffer h" "bufio h = None" "\<not> held (fh_lock h)"
    and "0 < fh_BuffSize h" "length bts \<le> nat (fh_BuffSize h)"
  shows "FileHandler_Handle fmt h r os =
           Returns (None, h\<lparr>bufio := Some ((NewWriterSize (file_fd h) (fh_BuffSize h))\<lparr>w_buf := bts\<rparr>)\<rparr>, os)"
proof -
  let ?b = "NewWriterSize (file_fd h) (fh_BuffSize h)"
  obtain lk where lk: "Lock (fh_lock h) = Some lk" using Lock_free assms(4) by blast
  have fits: "length bts \<le> Available ?b" "w_err ?b = None" "w_buf ?b = []"
    using assms(5,6) by (simp_all add: Available_def NewWriterSize_def)
  have "h\<lparr>fh_lock := Unlock lk, bufio := Some (?b\<lparr>w_buf := bts\<rparr>)\<rparr> = h\<lparr>bufio := Some (?b\<lparr>w_buf := bts\<rparr>)\<rparr>"
    using Unlock_Lock [OF assms(4) lk] by simp
  then show ?thesis
    using assms lk fits by (simp add: FileHandler_Handle_def bufio_Write_fits [OF fits(1,2)])
qed

text \<open>
  C6. A write that brings the occupancy of the buffer to the capacity is to trigger a
  flush to the sink before it returns. The code, for a capacity of 4 and a record of 4
  bytes on handlers as the constructors make them: \<^verbatim>\<open>BufferedHandler.Handle\<close> reaches its
  call of \<^verbatim>\<open>h.Flush()\<close> with the lock held and does not return; \<^verbatim>\<open>FileHandler.Handle\<close>
  returns with the 4 bytes in the buffer, the occupancy at \<^verbatim>\<open>BuffSize\<close>, and the system
  as it was, no byte in the file.
\<close>

theorem threshold_flush_missing:
  "BufferedHandler_Handle fmt_message (NewBufferedHandler example_fh 4) (example_record ''abcd'')
       example_os_open
     = Blocks
   \<and> FileHandler_Handle fmt_message (example_fh\<lparr>fh_BuffSize := 4\<rparr>) (example_record ''abcd'')
       example_os_open
     = Returns (None, example_fh\<lparr>fh_BuffSize := 4, bufio := Some (example_writer ''abcd'')\<rparr>,
         example_os_open)
   \<and> fh_BuffSize (example_fh\<lparr>fh_BuffSize := 4\<rparr>) \<le> int (Buffered (example_writer ''abcd''))
   \<and> files example_os_open ''app.log'' = []"
  by (simp add: BufferedHandler_Handle_def BufferedHandler_Flush_def NewBufferedHandler_def
      FileHandler_Writer_def FileHandler_Handle_def example_fh_def fmt_message_def
      example_record_def Lock_def Unlock_def NewWriterSize_def bufio_Write_def write_loop.simps
      Available_def Buffered_def example_writer_def example_os_open_def example_os_def)

section \<open>Flush twice\<close>

lemma bufio_Flush_idem:
  assumes "bufio_Flush b os = (e, b', os')"
  shows "bufio_Flush b' os' = (e, b', os')"
proof (cases "w_err b")
  case (Some x)
  with assms have "e = Some x" "b' = b" "os' = os" by (simp_all add: bufio_Flush_def)
  with Some show ?thesis by (simp add: bufio_Flush_def)
next
  case None
  show ?thesis
  proof (cases "w_buf b = []")
    case True
    with None assms show ?thesis by (simp add: bufio_Flush_def Buffered_def)
  next
    case False
    obtain n e1 os1 where w: "File_Write (w_wr b) (w_buf b) os = ((n, e1), os1)"
      by (cases "File_Write (w_wr b) (w_buf b) os") auto
    show ?thesis
    proof (cases "if n < Buffered b \<and> e1 = None then Some ErrShortWrite else e1")
      case N: None
      with None False w assms have "e = None" "b' = b\<lparr>w_buf := []\<rparr>" "os' = os1"
        by (simp_all add: bufio_Flush_def Buffered_def split: if_splits)
      with None show ?thesis by (simp add: bufio_Flush_def Buffered_def)
    next
      case (Some x)
      with None False w assms
      have "e = Some x" "b' = b\<lparr>w_buf := drop n (w_buf b), w_err := Some x\<rparr>" "os' = os1"
        by (simp_all add: bufio_Flush_def Buffered_def split: if_splits)
      then show ?thesis by (simp add: bufio_Flush_def)
    qed
  qed
qed

lemma File_Write_handles:
  "File_Write f p os = (res, os') \<Longrightarrow> handles os' = handles os \<and> sync_fault os' = sync_fault os
     \<and> close_fault os' = close_fault os \<and> write_fault os' = write_fault os \<and> next_fd os' = next_fd os"
  by (auto simp: File_Write_def split: option.splits prod.splits)

lemma bufio_Flush_handles:
  "bufio_Flush b os = (e, b', os') \<Longrightarrow> handles os' = handles os"
  by (auto simp: bufio_Flush_def split: if_splits prod.splits option.splits dest: File_Write_handles)

lemma FileHandler_Flush_handles:
  "FileHandler_Flush h os = (e, h', os') \<Longrightarrow> handles os' = handles os \<and> file_fd h' = file_fd h \<and> fpath h' = fpath h"
  by (auto simp: FileHandler_Flush_def split: option.splits prod.splits dest: bufio_Flush_handles)

lemma FileHandler_Flush_idem:
  assumes "FileHandler_Flush h os = (e, h', os')"
  shows "FileHandler_Flush h' os' = (e, h', os')"
proof (cases "bufio h")
  case None
  with assms show ?thesis by (auto simp: FileHandler_Flush_def)
next
  case (Some b)
  obtain e1 b' os1 where fl: "bufio_Flush b os = (e1, b', os1)" by (metis prod_cases3)
  note again = bufio_Flush_idem [OF fl]
  show ?thesis
  proof (cases e1)
    case None
    with assms Some fl again show ?thesis by (auto simp: FileHandler_Flush_def)
  next
    case (Some x)
    with assms \<open>bufio h = Some b\<close> fl again show ?thesis by (auto simp: FileHandler_Flush_def)
  qed
qed

lemma Lock_Unlock_again: "Lock lw = Some lk \<Longrightarrow> \<exists>lk'. Lock (Unlock lk) = Some lk' \<and> Unlock lk' = Unlock lk"
  by (auto simp: Lock_def Unlock_def split: if_splits)

lemma BufferedHandler_Flush_idem:
  assumes "BufferedHandler_Flush h os = Returns (e, h', os')"
  shows "BufferedHandler_Flush h' os' = Returns (e, h', os')"
proof -
  from assms obtain lk where lk: "Lock (bh_lock h) = Some lk"
    by (auto simp: BufferedHandler_Flush_def split: option.splits)
  from assms lk obtain b where b: "buffer h = Some b"
    by (auto simp: BufferedHandler_Flush_def split: option.splits)
  from Lock_Unlock_again [OF lk] obtain lk' where lk': "Lock (Unlock lk) = Some lk'" "Unlock lk' = Unlock lk"
    by blast
  obtain e1 b' os1 where fl: "bufio_Flush b os = (e1, b', os1)" by (metis prod_cases3)
  note again = bufio_Flush_idem [OF fl]
  show ?thesis
  proof (cases e1)
    case (Some x)
    with assms lk b fl have r: "e = Some x" "h' = h\<lparr>bh_lock := Unlock lk, buffer := Some b'\<rparr>" "os' = os1"
      by (auto simp: BufferedHandler_Flush_def)
    show ?thesis using again lk' Some by (simp add: r BufferedHandler_Flush_def)
  next
    case None
    obtain e2 g os2 where in_fl: "FileHandler_Flush (handler h) os1 = (e2, g, os2)" by (metis prod_cases3)
    with assms lk b fl None
    have r: "e = e2" "h' = h\<lparr>bh_lock := Unlock lk, buffer := Some b', handler := g\<rparr>" "os' = os2"
      by (auto simp: BufferedHandler_Flush_def)
    have b'e: "w_err b' = None" "w_buf b' = []"
      using fl None by (auto simp: bufio_Flush_def Buffered_def split: if_splits prod.splits option.splits)
    have "bufio_Flush b' os2 = (None, b', os2)"
      using b'e by (simp add: bufio_Flush_def Buffered_def)
    then show ?thesis
      using lk' FileHandler_Flush_idem [OF in_fl] by (simp add: r BufferedHandler_Flush_def)
  qed
qed

text \<open>
  On a full disk a handler with three buffered bytes fails to flush; the second
  \<^verbatim>\<open>Flush()\<close> returns the error again.
\<close>

theorem Flush_twice_counterexample:
  "fst (FileHandler_Flush (fst (snd (FileHandler_Flush (example_fh4 ''abc'') example_os_full)))
        (snd (snd (FileHandler_Flush (example_fh4 ''abc'') example_os_full))))
     = Some ''no space left on device''"
  by (simp add: FileHandler_Flush_def bufio_Flush_def File_Write_def Buffered_def example_fh4_def
      example_fh_def example_writer_def example_os_full_def example_os_open_def example_os_def)

text \<open>
  C9, as the code has it. A second \<^verbatim>\<open>Flush()\<close> right after a \<^verbatim>\<open>Flush()\<close> that returned gives
  the result of the first and changes neither the handler nor the system: no byte reaches
  the sink, there is no error when the first call had none, and the error of the first
  call comes back when it had one.
\<close>

theorem Flush_twice:
  "(FileHandler_Flush g os = (e, g', os') \<longrightarrow> FileHandler_Flush g' os' = (e, g', os'))
   \<and> (BufferedHandler_Flush h os = Returns (e, h', os') \<longrightarrow>
        BufferedHandler_Flush h' os' = Returns (e, h', os'))"
  using FileHandler_Flush_idem BufferedHandler_Flush_idem by blast

theorem Flush_twice_witness:
  "FileHandler_Flush (example_fh4 ''abc'') example_os_open = (None, example_fh4 [], example_os_abc)
   \<and> FileHandler_Flush (example_fh4 []) example_os_abc = (None, example_fh4 [], example_os_abc)
   \<and> BufferedHandler_Flush (example_bh False ''abc'') example_os_open
       = Returns (None, example_bh False [], example_os_abc)
   \<and> BufferedHandler_Flush (example_bh False []) example_os_abc
       = Returns (None, example_bh False [], example_os_abc)"
proof -
  have 1: "FileHandler_Flush (example_fh4 ''abc'') example_os_open = (None, example_fh4 [], example_os_abc)"
    by (simp add: FileHandler_Flush_def bufio_Flush_def File_Write_def File_Sync_def Buffered_def
        example_fh4_def example_fh_def example_writer_def example_os_abc_def example_os_open_def
        example_os_def)
  have 2: "BufferedHandler_Flush (example_bh False ''abc'') example_os_open
       = Returns (None, example_bh False [], example_os_abc)"
    by (simp add: BufferedHandler_Flush_def FileHandler_Flush_def bufio_Flush_def File_Write_def
        File_Sync_def Buffered_def Lock_def Unlock_def example_bh_def NewBufferedHandler_def
        FileHandler_Writer_def example_fh_def example_writer_def example_os_abc_def
        example_os_open_def example_os_def)
  from 1 2 Flush_twice [of "example_fh4 ''abc''" example_os_open None "example_fh4 []" example_os_abc
      "example_bh False ''abc''" "example_bh False []"]
  show ?thesis by simp
qed

section \<open>Close\<close>

lemma File_Write_prefix:
  "File_Write f p os = (res, os') \<Longrightarrow> prefix (files os q) (files os' q)"
  by (auto simp: File_Write_def split: option.splits prod.splits)

lemma bufio_Flush_prefix:
  "bufio_Flush b os = (e, b', os') \<Longrightarrow> prefix (files os q) (files os' q)"
  by (auto simp: bufio_Flush_def split: if_splits option.splits prod.splits dest: File_Write_prefix)

lemma FileHandler_Flush_prefix:
  "FileHandler_Flush g os = (e, g', os') \<Longrightarrow> prefix (files os q) (files os' q)"
  by (auto simp: FileHandler_Flush_def split: option.splits prod.splits dest: bufio_Flush_prefix)

lemma map_of_filter_fst: "map_of (filter (\<lambda>(g, q). g \<noteq> f) xs) f = None"
  by (induction xs) auto

lemma File_Close_closed: "map_of (handles (snd (File_Close f os))) f = None"
  by (auto simp: File_Close_def map_of_filter_fst split: option.splits)

lemma File_Close_files: "files (snd (File_Close f os)) = files os"
  by (auto simp: File_Close_def split: option.splits)

lemma FileHandler_Close_failed_flush:
  "FileHandler_Flush h os = (Some e, h', os') \<Longrightarrow>
   FileHandler_Close h os = (Some e, h', os') \<and> handles os' = handles os"
  by (auto simp: FileHandler_Close_def dest: FileHandler_Flush_handles)

lemma FileHandler_Close_flushed:
  assumes "FileHandler_Flush h os = (None, h', os')"
  shows "FileHandler_Close h os = (fst (File_Close (file_fd h) os'), h', snd (File_Close (file_fd h) os'))"
  using assms FileHandler_Flush_handles [OF assms]
  by (auto simp: FileHandler_Close_def split: prod.splits)

lemma FileHandler_Flush_drains:
  assumes "FileHandler_Flush h os = (None, h', os')" "bufio h = Some b"
    "map_of (handles os) (w_wr b) = Some fp"
  shows "files os' fp = files os fp @ w_buf b \<and> bufio h' = Some (b\<lparr>w_buf := []\<rparr>)"
  using assms
  by (auto simp: FileHandler_Flush_def bufio_Flush_def File_Write_def Buffered_def
      split: option.splits prod.splits if_splits)

lemma BufferedHandler_Flush_handles:
  assumes "BufferedHandler_Flush h os = Returns (e, h', os')"
  shows "handles os' = handles os"
proof -
  from assms obtain lk b where lk: "Lock (bh_lock h) = Some lk" and b: "buffer h = Some b"
    by (auto simp: BufferedHandler_Flush_def split: option.splits)
  obtain e1 b' os1 where fl: "bufio_Flush b os = (e1, b', os1)" by (metis prod_cases3)
  obtain e2 g os2 where inner: "FileHandler_Flush (handler h) os1 = (e2, g, os2)" by (metis prod_cases3)
  have "os' = os1 \<or> os' = os2"
    using assms lk b fl inner by (cases e1) (auto simp: BufferedHandler_Flush_def)
  with bufio_Flush_handles [OF fl] FileHandler_Flush_handles [OF inner] show ?thesis by auto
qed

lemma BufferedHandler_Close_failed_flush:
  assumes "BufferedHandler_Flush h os = Returns (Some e, h', os')"
  shows "BufferedHandler_Close h os = Returns (Some e, h', os') \<and> handles os' = handles os"
  using assms BufferedHandler_Flush_handles [OF assms] by (simp add: BufferedHandler_Close_def)

lemma BufferedHandler_Flush_inner:
  assumes "BufferedHandler_Flush h os = Returns (None, h', os')"
  shows "\<exists>os1. FileHandler_Flush (handler h) os1 = (None, handler h', os') \<and> file_fd (handler h') = file_fd (handler h)"
  using assms
  by (auto simp: BufferedHandler_Flush_def split: option.splits prod.splits dest: FileHandler_Flush_handles)

lemma BufferedHandler_Close_flushed:
  assumes "BufferedHandler_Flush h os = Returns (None, h', os')"
  shows "BufferedHandler_Close h os =
           Returns (fst (File_Close (file_fd (handler h)) os'), h', snd (File_Close (file_fd (handler h)) os'))"
proof -
  from BufferedHandler_Flush_inner [OF assms] obtain os1 where
    inner: "FileHandler_Flush (handler h) os1 = (None, handler h', os')"
    and fd: "file_fd (handler h') = file_fd (handler h)" by blast
  have "FileHandler_Flush (handler h') os' = (None, handler h', os')"
    using FileHandler_Flush_idem [OF inner] .
  from FileHandler_Close_flushed [OF this]
  show ?thesis using assms fd by (simp add: BufferedHandler_Close_def)
qed

lemma BufferedHandler_Flush_drains:
  assumes "BufferedHandler_Flush h os = Returns (None, h', os')" "buffer h = Some b"
    "map_of (handles os) (w_wr b) = Some fp"
  shows "prefix (files os fp @ w_buf b) (files os' fp) \<and> buffer h' = Some (b\<lparr>w_buf := []\<rparr>)"
proof -
  from assms(1,2) obtain b' os1 e g where fl: "bufio_Flush b os = (None, b', os1)"
    and inner: "FileHandler_Flush (handler h) os1 = (e, g, os')" and b': "buffer h' = Some b'"
    by (auto simp: BufferedHandler_Flush_def split: option.splits prod.splits)
  from fl assms(3) have "files os1 fp = files os fp @ w_buf b \<and> b' = b\<lparr>w_buf := []\<rparr>"
    by (auto simp: bufio_Flush_def File_Write_def Buffered_def split: option.splits prod.splits if_splits)
  with FileHandler_Flush_prefix [OF inner, of fp] b' show ?thesis by simp
qed

text \<open>
  C8. \<^verbatim>\<open>Close()\<close> of either handler flushes first. When the flush fails, \<^verbatim>\<open>Close()\<close>
  returns its error in the state the flush left, with the same descriptors open as
  before. When the flush succeeds, the file is closed in the state after the flush, which
  holds the buffered bytes in the file; \<^verbatim>\<open>Close()\<close> returns what closing the file returns
  and the descriptor is closed afterwards.
\<close>

theorem Close_flushes_first:
  "(FileHandler_Flush g os = (Some e, g', os') \<longrightarrow>
      FileHandler_Close g os = (Some e, g', os') \<and> handles os' = handles os)
   \<and> (FileHandler_Flush g os = (None, g', os') \<longrightarrow>
      FileHandler_Close g os
        = (fst (File_Close (file_fd g) os'), g', snd (File_Close (file_fd g) os'))
      \<and> map_of (handles (snd (File_Close (file_fd g) os'))) (file_fd g) = None
      \<and> (bufio g = Some b \<and> map_of (handles os) (w_wr b) = Some fp \<longrightarrow>
           files (snd (File_Close (file_fd g) os')) fp = files os fp @ w_buf b))
   \<and> (BufferedHandler_Flush h os = Returns (Some e, h', os'') \<longrightarrow>
      BufferedHandler_Close h os = Returns (Some e, h', os'') \<and> handles os'' = handles os)
   \<and> (BufferedHandler_Flush h os = Returns (None, h', os'') \<longrightarrow>
      BufferedHandler_Close h os
        = Returns (fst (File_Close (file_fd (handler h)) os''), h',
            snd (File_Close (file_fd (handler h)) os''))
      \<and> map_of (handles (snd (File_Close (file_fd (handler h)) os''))) (file_fd (handler h)) = None
      \<and> (buffer h = Some b \<and> map_of (handles os) (w_wr b) = Some fp \<longrightarrow>
           prefix (files os fp @ w_buf b) (files (snd (File_Close (file_fd (handler h)) os'')) fp)))"
proof (intro conjI impI)
  assume "FileHandler_Flush g os = (Some e, g', os')"
  then show "FileHandler_Close g os = (Some e, g', os')" "handles os' = handles os"
    using FileHandler_Close_failed_flush by blast+
next
  assume "FileHandler_Flush g os = (None, g', os')"
  then show "FileHandler_Close g os
      = (fst (File_Close (file_fd g) os'), g', snd (File_Close (file_fd g) os'))"
    by (rule FileHandler_Close_flushed)
next
  show "map_of (handles (snd (File_Close (file_fd g) os'))) (file_fd g) = None"
    by (rule File_Close_closed)
next
  assume "FileHandler_Flush g os = (None, g', os')"
    and "bufio g = Some b \<and> map_of (handles os) (w_wr b) = Some fp"
  then show "files (snd (File_Close (file_fd g) os')) fp = files os fp @ w_buf b"
    using FileHandler_Flush_drains [of g os g' os' b fp] by (simp add: File_Close_files)
next
  assume "BufferedHandler_Flush h os = Returns (Some e, h', os'')"
  then show "BufferedHandler_Close h os = Returns (Some e, h', os'')" "handles os'' = handles os"
    using BufferedHandler_Close_failed_flush by blast+
next
  assume "BufferedHandler_Flush h os = Returns (None, h', os'')"
  then show "BufferedHandler_Close h os
      = Returns (fst (File_Close (file_fd (handler h)) os''), h',
          snd (File_Close (file_fd (handler h)) os''))"
    by (rule BufferedHandler_Close_flushed)
next
  show "map_of (handles (snd (File_Close (file_fd (handler h)) os''))) (file_fd (handler h)) = None"
    by (rule File_Close_closed)
next
  assume "BufferedHandler_Flush h os = Returns (None, h', os'')"
    and "buffer h = Some b \<and> map_of (handles os) (w_wr b) = Some fp"
  then show "prefix (files os fp @ w_buf b) (files (snd (File_Close (file_fd (handler h)) os'')) fp)"
    using BufferedHandler_Flush_drains [of h os h' os'' b fp] by (simp add: File_Close_files)
qed

theorem Close_flushes_first_witness:
  "FileHandler_Flush (example_fh4 ''abc'') example_os_full
     = (Some ''no space left on device'', (example_fh4 ''abc'')\<lparr>bufio := Some example_full_writer\<rparr>,
        example_os_full)
   \<and> FileHandler_Close (example_fh4 ''abc'') example_os_full
     = (Some ''no space left on device'', (example_fh4 ''abc'')\<lparr>bufio := Some example_full_writer\<rparr>,
        example_os_full)
   \<and> handles example_os_full = [(3, ''app.log'')]
   \<and> FileHandler_Flush (example_fh4 ''abc'') example_os_open = (None, example_fh4 [], example_os_abc)
   \<and> FileHandler_Close (example_fh4 ''abc'') example_os_open = (None, example_fh4 [], example_os_closed)
   \<and> files example_os_closed ''app.log'' = ''abc''
   \<and> BufferedHandler_Flush (example_bh False ''abc'') example_os_full
     = Returns (Some ''no space left on device'',
         (example_bh False ''abc'')\<lparr>buffer := Some example_full_writer\<rparr>, example_os_full)
   \<and> BufferedHandler_Close (example_bh False ''abc'') example_os_full
     = Returns (Some ''no space left on device'',
         (example_bh False ''abc'')\<lparr>buffer := Some example_full_writer\<rparr>, example_os_full)
   \<and> BufferedHandler_Flush (example_bh False ''abc'') example_os_open
     = Returns (None, example_bh False [], example_os_abc)
   \<and> BufferedHandler_Close (example_bh False ''abc'') example_os_open
     = Returns (None, example_bh False [], example_os_closed)"
proof -
  have f1: "FileHandler_Flush (example_fh4 ''abc'') example_os_full
     = (Some ''no space left on device'', (example_fh4 ''abc'')\<lparr>bufio := Some example_full_writer\<rparr>,
        example_os_full)"
    by (simp add: FileHandler_Flush_def bufio_Flush_def File_Write_def Buffered_def example_fh4_def
        example_fh_def example_writer_def example_full_writer_def example_os_full_def
        example_os_open_def example_os_def fun_upd_idem)
  have f2: "FileHandler_Flush (example_fh4 ''abc'') example_os_open = (None, example_fh4 [], example_os_abc)"
    by (simp add: FileHandler_Flush_def bufio_Flush_def File_Write_def File_Sync_def Buffered_def
        example_fh4_def example_fh_def example_writer_def example_os_abc_def example_os_open_def
        example_os_def)
  have b1: "BufferedHandler_Flush (example_bh False ''abc'') example_os_full
     = Returns (Some ''no space left on device'',
         (example_bh False ''abc'')\<lparr>buffer := Some example_full_writer\<rparr>, example_os_full)"
    by (simp add: BufferedHandler_Flush_def bufio_Flush_def File_Write_def Buffered_def Lock_def
        Unlock_def example_bh_def NewBufferedHandler_def example_writer_def example_full_writer_def
        example_os_full_def example_os_open_def example_os_def fun_upd_idem)
  have b2: "BufferedHandler_Flush (example_bh False ''abc'') example_os_open
       = Returns (None, example_bh False [], example_os_abc)"
    by (simp add: BufferedHandler_Flush_def FileHandler_Flush_def bufio_Flush_def File_Write_def
        File_Sync_def Buffered_def Lock_def Unlock_def example_bh_def NewBufferedHandler_def
        FileHandler_Writer_def example_fh_def example_writer_def example_os_abc_def
        example_os_open_def example_os_def)
  have c: "File_Close 3 example_os_abc = (None, example_os_closed)"
    by (simp add: File_Close_def example_os_closed_def example_os_abc_def example_os_open_def
        example_os_def)
  have fd: "file_fd (example_fh4 ''abc'') = 3" "file_fd (handler (example_bh False ''abc'')) = 3"
    by (simp_all add: example_fh4_def example_fh_def example_bh_def NewBufferedHandler_def)
  have h: "handles example_os_full = [(3, ''app.log'')]" "files example_os_closed ''app.log'' = ''abc''"
    by (simp_all add: example_os_full_def example_os_closed_def example_os_abc_def
        example_os_open_def example_os_def)
  note t1 = Close_flushes_first [where g = "example_fh4 ''abc''" and os = example_os_full
      and e = "''no space left on device''"
      and g' = "(example_fh4 ''abc'')\<lparr>bufio := Some example_full_writer\<rparr>" and os' = example_os_full
      and h = "example_bh False ''abc''"
      and h' = "(example_bh False ''abc'')\<lparr>buffer := Some example_full_writer\<rparr>"
      and os'' = example_os_full]
  note t2 = Close_flushes_first [where g = "example_fh4 ''abc''" and os = example_os_open
      and g' = "example_fh4 []" and os' = example_os_abc
      and h = "example_bh False ''abc''" and h' = "example_bh False []" and os'' = example_os_abc]
  from t1 f1 b1 have
    "FileHandler_Close (example_fh4 ''abc'') example_os_full
     = (Some ''no space left on device'', (example_fh4 ''abc'')\<lparr>bufio := Some example_full_writer\<rparr>,
        example_os_full)"
    "BufferedHandler_Close (example_bh False ''abc'') example_os_full
     = Returns (Some ''no space left on device'',
         (example_bh False ''abc'')\<lparr>buffer := Some example_full_writer\<rparr>, example_os_full)"
    by simp_all
  moreover from t2 f2 b2 c fd have
    "FileHandler_Close (example_fh4 ''abc'') example_os_open = (None, example_fh4 [], example_os_closed)"
    "BufferedHandler_Close (example_bh False ''abc'') example_os_open
     = Returns (None, example_bh False [], example_os_closed)"
    by simp_all
  ultimately show ?thesis using f1 f2 b1 b2 h by simp
qed

section \<open>File descriptors\<close>

lemma openFile_Inr:
  "openFile fp os = (Inr f, os') \<Longrightarrow>
     f = next_fd os \<and> os' = os\<lparr>handles := (f, fp) # handles os, next_fd := Suc f\<rparr>"
  by (auto simp: openFile_def OpenFile_def split: option.splits)

text \<open>
  Every \<^verbatim>\<open>ReopenFile\<close> that succeeds adds a descriptor on the handler's path to the open
  ones and closes none.
\<close>

lemma ReopenFile_opens_one_more:
  assumes "ReopenFile h os = (None, h', os')"
  shows "handles os' = (file_fd h', fpath h) # handles os"
    and "open_count (fpath h) os' = Suc (open_count (fpath h) os)"
proof -
  from assms obtain f where "openFile (fpath h) os = (Inr f, os')" and g: "h' = h\<lparr>file_fd := f\<rparr>"
    by (auto simp: ReopenFile_def split: prod.splits sum.splits)
  from openFile_Inr [OF this(1)] g
  show "handles os' = (file_fd h', fpath h) # handles os"
    "open_count (fpath h) os' = Suc (open_count (fpath h) os)"
    by (simp_all add: open_count_def)
qed

text \<open>
  C2. At most one file handle is to be open for a path at a time, the handle held before
  being closed when a new one replaces it. The code, for \<^verbatim>\<open>NewFileHandler("app.log", false)\<close>
  followed by \<^verbatim>\<open>ReopenFile()\<close>: the handler refers to descriptor 4, descriptor 3 is still
  open on \<^verbatim>\<open>app.log\<close>, and two descriptors are open on the path.
\<close>

theorem reopen_leaves_old_handle:
  "NewFileHandler ''app.log'' False example_os = (Inr example_fh, example_os_open)
   \<and> ReopenFile example_fh example_os_open
     = (None, example_fh\<lparr>file_fd := 4\<rparr>,
        example_os_open\<lparr>handles := [(4, ''app.log''), (3, ''app.log'')], next_fd := 5\<rparr>)
   \<and> map_of (handles (example_os_open\<lparr>handles := [(4, ''app.log''), (3, ''app.log'')], next_fd := 5\<rparr>))
        (file_fd example_fh) = Some ''app.log''
   \<and> open_count ''app.log''
        (example_os_open\<lparr>handles := [(4, ''app.log''), (3, ''app.log'')], next_fd := 5\<rparr>) = 2"
  by (simp add: NewFileHandler_def ReopenFile_def openFile_def MkdirAll_def OpenFile_def
      open_count_def example_fh_def example_os_open_def example_os_def)

section \<open>Construction errors\<close>

text \<open>
  C7. \<^verbatim>\<open>RotateWriter\<close> with \<^verbatim>\<open>MaxSize\<close> and \<^verbatim>\<open>RotateTime\<close> both 0 returns an error and
  \<^verbatim>\<open>CreateWriter\<close> with an empty \<^verbatim>\<open>Logfile\<close> returns an error, and so does
  \<^verbatim>\<open>RotateWriter\<close> then; the system state is untouched, whatever the packages that open
  files would do.
\<close>

theorem construction_errors:
  "(MaxSize c = 0 \<and> RotateTime c = 0 \<longrightarrow>
      RotateWriter pk c os
        = Returns (Inl ''slog: cannot create rotate writer, MaxSize and RotateTime both is 0'', os))
   \<and> (Logfile c = [] \<longrightarrow>
      CreateWriter pk c os = Returns (Inl ''slog: logfile cannot be empty for create writer'', os)
      \<and> (\<exists>e. RotateWriter pk c os = Returns (Inl e, os)))"
  by (simp add: RotateWriter_def CreateWriter_def)

theorem construction_errors_witness:
  "MaxSize example_config = 0 \<and> RotateTime example_config = 0
   \<and> RotateWriter example_packages example_config []
     = Returns (Inl ''slog: cannot create rotate writer, MaxSize and RotateTime both is 0'', [])
   \<and> CreateWriter example_packages example_config [] = Returns (Inr ''line:app.log'', [''app.log''])
   \<and> Logfile (example_config\<lparr>Logfile := [], MaxSize := 100\<rparr>) = []
   \<and> CreateWriter example_packages (example_config\<lparr>Logfile := [], MaxSize := 100\<rparr>) []
     = Returns (Inl ''slog: logfile cannot be empty for create writer'', [])
   \<and> (\<exists>e. RotateWriter example_packages (example_config\<lparr>Logfile := [], MaxSize := 100\<rparr>) []
     = Returns (Inl e, []))"
proof -
  have "CreateWriter example_packages example_config [] = Returns (Inr ''line:app.log'', [''app.log''])"
    by (simp add: CreateWriter_def wrapBuffer_def BuffModeLine_def example_packages_def
        example_config_def)
  with construction_errors [of example_config example_packages "[]"]
    construction_errors [of "example_config\<lparr>Logfile := [], MaxSize := 100\<rparr>" example_packages "[]"]
  show ?thesis by (simp add: example_config_def)
qed

section \<open>Release of a record\<close>

text \<open>
  \<^verbatim>\<open>releaseRecord\<close> assigns \<^verbatim>\<open>Time\<close>, \<^verbatim>\<open>Data\<close>, \<^verbatim>\<open>Extra\<close>, \<^verbatim>\<open>Fields\<close> and \<^verbatim>\<open>CallerSkip\<close> and
  puts the record into the pool; every other field of the record is as it was.
\<close>

lemma releaseRecord_cells:
  "releaseRecord l r hp = (l', hp') \<Longrightarrow>
     recordPool l' = r # recordPool l
     \<and> cells hp' r = (cells hp r)\<lparr>Time := emptyTime, Data := None, Extra := None, Fields := None,
          rCallerSkip := CallerSkip l\<rparr>"
  by (auto simp: releaseRecord_def modify_def Pool_Put_def)

lemma releaseRecord_leaves:
  "releaseRecord l r hp = (l', hp') \<Longrightarrow>
     Level (cells hp' r) = Level (cells hp r) \<and> LevelName (cells hp' r) = LevelName (cells hp r)
     \<and> Channel (cells hp' r) = Channel (cells hp r) \<and> Message (cells hp' r) = Message (cells hp r)
     \<and> Ctx (cells hp' r) = Ctx (cells hp r) \<and> Caller (cells hp' r) = Caller (cells hp r)
     \<and> Formatted (cells hp' r) = Formatted (cells hp r)"
  by (auto simp: releaseRecord_def modify_def)

text \<open>
  C1. Every mutable field of the record a leveled logging call acquired is to be empty
  when the record is back in the pool, so that a record acquired again carries nothing
  of an earlier call. The code, on a new logger whose dispatch changes nothing: after
  \<^verbatim>\<open>Info("hello")\<close> the record in the pool has the message \<^verbatim>\<open>hello\<close>, the level name and the
  level of the call; after \<^verbatim>\<open>WithContext\<close> the record in the pool has the context, and it
  still has it after a later \<^verbatim>\<open>Info("hello")\<close> that got this record from the pool.
\<close>

theorem released_record_keeps_state:
  "recordPool (fst (Logger_Info no_write example_lname None ''hello'' example_logger example_heap)) = [0]
   \<and> Message (cells (snd (Logger_Info no_write example_lname None ''hello'' example_logger example_heap)) 0)
       = ''hello''
   \<and> LevelName (cells (snd (Logger_Info no_write example_lname None ''hello'' example_logger example_heap)) 0)
       = ''INFO''
   \<and> Level (cells (snd (Logger_Info no_write example_lname None ''hello'' example_logger example_heap)) 0)
       = InfoLevel
   \<and> recordPool (fst example_after_WithContext) = [0]
   \<and> Ctx (cells (snd example_after_WithContext) 0) = Some ''request''
   \<and> acquired (Some 0) (fst example_after_WithContext) (snd example_after_WithContext) = 0
   \<and> recordPool (fst (Logger_Info no_write example_lname (Some 0) ''hello''
        (fst example_after_WithContext) (snd example_after_WithContext))) = [0]
   \<and> Ctx (cells (snd (Logger_Info no_write example_lname (Some 0) ''hello''
        (fst example_after_WithContext) (snd example_after_WithContext))) 0) = Some ''request''"
  by (simp add: Logger_Info_def Logger_log_def Logger_WithContext_def Record_WithContext_def
      Logger_newRecord_def Pool_Get_def Pool_Put_def newRecord_def alloc_def acquired_def
      Record_log_def modify_def releaseRecord_def no_write_def example_lname_def
      example_after_WithContext_def example_logger_def example_env_def example_heap_def)

section \<open>Records handed out\<close>

text \<open>
  \<^verbatim>\<open>WithField\<close> and \<^verbatim>\<open>WithFields\<close> on a logger with an empty pool return the record at
  address 1, and the pool holds the record at address 0.
\<close>

theorem WithField_returns_copy_counterexample:
  "fst (Logger_WithField None ''k'' ''v'' example_logger example_heap) = 1
   \<and> recordPool (fst (snd (Logger_WithField None ''k'' ''v'' example_logger example_heap))) = [0]
   \<and> fst (Logger_WithFields None (Some [''k'' \<mapsto> ''v'']) example_logger example_heap) = 1
   \<and> recordPool (fst (snd (Logger_WithFields None (Some [''k'' \<mapsto> ''v'']) example_logger example_heap)))
       = [0]"
  by (simp add: Logger_WithField_def Logger_WithFields_def Record_WithField_def Record_WithFields_def
      Logger_newRecord_def Pool_Get_def Pool_Put_def newRecord_def alloc_def releaseRecord_def
      modify_def example_logger_def example_env_def example_heap_def)

lemma Pool_Get_subset:
  "Pool_Get pick pool = (res, pool') \<Longrightarrow>
     set pool' \<subseteq> set pool \<and> (\<forall>r. res = Some r \<longrightarrow> r \<in> set pool)"
  by (auto simp: Pool_Get_def split: option.splits if_splits dest: in_set_takeD in_set_dropD)

lemma newRecord_bound:
  assumes "\<forall>x\<in>set (recordPool l). x < next_addr hp" "Logger_newRecord pick l hp = (r, l1, hp1)"
  shows "r < next_addr hp1 \<and> (\<forall>x\<in>set (recordPool l1). x < next_addr hp1)"
proof -
  obtain res pool' where g: "Pool_Get pick (recordPool l) = (res, pool')"
    by (cases "Pool_Get pick (recordPool l)") auto
  from Pool_Get_subset [OF g] assms(1)
  have sub: "\<forall>x\<in>set pool'. x < next_addr hp" "\<forall>r. res = Some r \<longrightarrow> r < next_addr hp"
    by auto
  show ?thesis
  proof (cases res)
    case None
    with g assms(2) sub show ?thesis
      by (auto simp: Logger_newRecord_def newRecord_def alloc_def less_Suc_eq)
  next
    case (Some a)
    with g assms(2) sub show ?thesis
      by (auto simp: Logger_newRecord_def)
  qed
qed

lemma set_Pool_Put: "set (Pool_Put r pool) = insert r (set pool)"
  by (simp add: Pool_Put_def)

lemma newRecord_first:
  "fst (Logger_newRecord (Some 0) (l\<lparr>recordPool := Pool_Put r rs\<rparr>) hp) = r"
  by (simp add: Logger_newRecord_def Pool_Get_def Pool_Put_def)

text \<open>
  C10, as the code has it. Each of \<^verbatim>\<open>Record()\<close>, \<^verbatim>\<open>WithField\<close>, \<^verbatim>\<open>WithFields\<close>,
  \<^verbatim>\<open>WithData\<close>, \<^verbatim>\<open>WithTime\<close> and \<^verbatim>\<open>WithContext\<close> has released the record it acquired
  when it returns: that record is in the pool, whatever the pool chose. \<^verbatim>\<open>Record()\<close> and
  \<^verbatim>\<open>WithContext\<close> return this very record: the caller holds a record that is in the pool
  and that an acquisition can get. \<^verbatim>\<open>WithField\<close> and \<^verbatim>\<open>WithFields\<close> return a newly
  allocated record, which is not in the pool when the pool holds allocated records only.
  \<^verbatim>\<open>WithData\<close> and \<^verbatim>\<open>WithTime\<close> return what the method of the record returns.
\<close>

theorem handed_out_records:
  "returned (Logger_Record pick l hp) = acquired pick l hp
   \<and> returned (Logger_Record pick l hp) \<in> set (pool_after (Logger_Record pick l hp))
   \<and> (\<exists>pick'. next_acquired pick' (Logger_Record pick l hp) = returned (Logger_Record pick l hp))
   \<and> returned (Logger_WithContext pick ctx l hp) = acquired pick l hp
   \<and> returned (Logger_WithContext pick ctx l hp) \<in> set (pool_after (Logger_WithContext pick ctx l hp))
   \<and> (\<exists>pick'. next_acquired pick' (Logger_WithContext pick ctx l hp)
         = returned (Logger_WithContext pick ctx l hp))
   \<and> acquired pick l hp \<in> set (pool_after (Logger_WithFields pick fs l hp))
   \<and> returned (Logger_WithFields pick fs l hp) = next_addr (snd (snd (Logger_newRecord pick l hp)))
   \<and> acquired pick l hp \<in> set (pool_after (Logger_WithField pick nm val l hp))
   \<and> returned (Logger_WithField pick nm val l hp) = next_addr (snd (snd (Logger_newRecord pick l hp)))
   \<and> ((\<forall>x\<in>set (recordPool l). x < next_addr hp) \<longrightarrow>
        returned (Logger_WithFields pick fs l hp) \<notin> set (pool_after (Logger_WithFields pick fs l hp))
        \<and> returned (Logger_WithField pick nm val l hp)
            \<notin> set (pool_after (Logger_WithField pick nm val l hp)))
   \<and> acquired pick l hp \<in> set (pool_after (Logger_WithData pick withd d l hp))
   \<and> returned (Logger_WithData pick withd d l hp)
       = fst (withd (acquired pick l hp) d (snd (snd (Logger_newRecord pick l hp))))
   \<and> acquired pick l hp \<in> set (pool_after (Logger_WithTime pick witht t l hp))
   \<and> returned (Logger_WithTime pick witht t l hp)
       = fst (witht (acquired pick l hp) t (snd (snd (Logger_newRecord pick l hp))))"
proof -
  obtain r l1 hp1 where n: "Logger_newRecord pick l hp = (r, l1, hp1)" by (metis prod_cases3)
  have fresh: "\<forall>x\<in>set (recordPool l). x < next_addr hp \<Longrightarrow> next_addr hp1 \<notin> set (r # recordPool l1)"
    using newRecord_bound [OF _ n] by auto
  have again: "\<exists>pick'. fst (Logger_newRecord pick' (l1\<lparr>recordPool := Pool_Put r (recordPool l1)\<rparr>) hp2) = r"
    for hp2
    using newRecord_first by blast
  show ?thesis
    using again
    by (auto simp: n acquired_def returned_def pool_after_def next_acquired_def
        Logger_Record_def Logger_WithContext_def Logger_WithFields_def
        Logger_WithField_def Logger_WithData_def Logger_WithTime_def Record_WithContext_def
        Record_WithField_def Record_WithFields_def alloc_def releaseRecord_def set_Pool_Put
        dest: fresh split: prod.splits)
qed

theorem handed_out_records_witness:
  "returned (Logger_Record None example_logger example_heap) = 0
   \<and> pool_after (Logger_Record None example_logger example_heap) = [0]
   \<and> returned (Logger_WithContext None (Some ''request'') example_logger example_heap) = 0
   \<and> pool_after (Logger_WithContext None (Some ''request'') example_logger example_heap) = [0]
   \<and> recordPool example_logger = []
   \<and> returned (Logger_WithFields None (Some [''k'' \<mapsto> ''v'']) example_logger example_heap) = 1
   \<and> pool_after (Logger_WithFields None (Some [''k'' \<mapsto> ''v'']) example_logger example_heap) = [0]
   \<and> returned (Logger_WithField None ''k'' ''v'' example_logger example_heap)
       \<notin> set (pool_after (Logger_WithField None ''k'' ''v'' example_logger example_heap))
   \<and> returned (Logger_WithData None example_with (Some [''k'' \<mapsto> ''v'']) example_logger example_heap) = 0
   \<and> returned (Logger_WithTime None example_with 1 example_logger example_heap) = 0"
proof -
  have e: "recordPool example_logger = []" "acquired None example_logger example_heap = 0"
    "Logger_newRecord None example_logger example_heap
       = (0, example_logger, example_heap\<lparr>cells := (cells example_heap)(0 := zero_Record\<lparr>Fields := Some Map.empty\<rparr>),
            next_addr := 1\<rparr>)"
    by (simp_all add: acquired_def Logger_newRecord_def Pool_Get_def newRecord_def alloc_def
        example_logger_def example_env_def example_heap_def)
  have p: "pool_after (Logger_Record None example_logger example_heap) = [0]"
    "pool_after (Logger_WithContext None (Some ''request'') example_logger example_heap) = [0]"
    "pool_after (Logger_WithFields None (Some [''k'' \<mapsto> ''v'']) example_logger example_heap) = [0]"
    by (simp_all add: pool_after_def Logger_Record_def Logger_WithContext_def Logger_WithFields_def
        Record_WithContext_def Record_WithFields_def alloc_def releaseRecord_def Pool_Put_def e(3) e(1))
  note t = handed_out_records [of None example_logger example_heap "Some ''request''"
      "Some [''k'' \<mapsto> ''v'']" "''k''" "''v''" example_with "Some [''k'' \<mapsto> ''v'']" example_with 1]
  have w: "\<forall>x\<in>set (recordPool example_logger). x < next_addr example_heap"
    using e(1) by simp
  from t w have notin: "returned (Logger_WithField None ''k'' ''v'' example_logger example_heap)
       \<notin> set (pool_after (Logger_WithField None ''k'' ''v'' example_logger example_heap))"
    by blast
  from t have eqs: "returned (Logger_Record None example_logger example_heap) = 0"
    "returned (Logger_WithContext None (Some ''request'') example_logger example_heap) = 0"
    "returned (Logger_WithFields None (Some [''k'' \<mapsto> ''v'']) example_logger example_heap) = 1"
    "returned (Logger_WithData None example_with (Some [''k'' \<mapsto> ''v'']) example_logger example_heap) = 0"
    "returned (Logger_WithTime None example_with 1 example_logger example_heap) = 0"
    by (simp_all add: e example_with_def)
  from eqs notin e(1) p show ?thesis by simp
qed

end
